theory Spec2Isabelle
  imports Complex_Main
begin

section \<open>Ratings that are numbers or optimization variables\<close>

text \<open>
  The sizing classes store in one attribute either a Python number or a
  \<^verbatim>\<open>cvx.Variable\<close>, and build cvxpy expressions from them with the ordinary
  arithmetic operators. Numbers are modelled as rationals (exact arithmetic).
  A variable is an object with an identity: \<^verbatim>\<open>cvx.Variable(...)\<close> allocates a
  fresh one, so each variable carries the identifier it was allocated with.
\<close>

record variable =
  var_name :: string
  var_integer :: bool
  var_id :: nat

datatype expr =
    Num rat
  | Var variable
  | Neg expr
  | Add expr expr
  | Mul expr expr

datatype constraint = NonPos expr

datatype pyobj = Object expr | PyNone

datatype exn = AttributeError | ZeroDivisionError | TypeError

text \<open>
  What lives outside the DER objects: the allocator of variable identities, the value a
  solve has stored in each variable (\<^verbatim>\<open>None\<close> before any solve), and the two
  loggers \<^verbatim>\<open>e_logger\<close> and \<^verbatim>\<open>u_logger\<close> as the lists of messages sent to them.
\<close>

record env =
  next_id :: nat
  var_value :: "nat \<Rightarrow> rat option"
  e_logger :: "string list"
  u_logger :: "string list"

definition cvx_Variable :: "string \<Rightarrow> bool \<Rightarrow> env \<Rightarrow> variable \<times> env" where
  "cvx_Variable nm intg e =
     (\<lparr>var_name = nm, var_integer = intg, var_id = next_id e\<rparr>,
      e\<lparr>next_id := Suc (next_id e)\<rparr>)"

text \<open>Python truthiness of a rating: a number is false exactly when it is zero, an object is true.\<close>

fun py_not :: "expr \<Rightarrow> bool" where
  "py_not (Num c) = (c = 0)"
| "py_not _ = False"

text \<open>The operators \<^verbatim>\<open>-x\<close>, \<^verbatim>\<open>x * y\<close> and \<^verbatim>\<open>x + y\<close>: arithmetic on two numbers, an expression node otherwise.\<close>

fun py_neg :: "expr \<Rightarrow> expr" where
  "py_neg (Num a) = Num (- a)"
| "py_neg a = Neg a"

fun py_mul :: "expr \<Rightarrow> expr \<Rightarrow> expr" where
  "py_mul (Num a) (Num b) = Num (a * b)"
| "py_mul a b = Mul a b"

fun py_add :: "expr \<Rightarrow> expr \<Rightarrow> expr" where
  "py_add (Num a) (Num b) = Num (a + b)"
| "py_add a b = Add a b"

text \<open>The numeric value of an expression once its variables have values.\<close>

fun value_of :: "(nat \<Rightarrow> rat option) \<Rightarrow> expr \<Rightarrow> rat option" where
  "value_of sol (Num c) = Some c"
| "value_of sol (Var v) = sol (var_id v)"
| "value_of sol (Neg a) = map_option uminus (value_of sol a)"
| "value_of sol (Add a b) =
     (case value_of sol a of None \<Rightarrow> None
      | Some x \<Rightarrow> (case value_of sol b of None \<Rightarrow> None | Some y \<Rightarrow> Some (x + y)))"
| "value_of sol (Mul a b) =
     (case value_of sol a of None \<Rightarrow> None
      | Some x \<Rightarrow> (case value_of sol b of None \<Rightarrow> None | Some y \<Rightarrow> Some (x * y)))"

text \<open>
  The attribute access \<^verbatim>\<open>x.value\<close>: a Python number has no such attribute
  (\<^verbatim>\<open>AttributeError\<close>); a variable or expression yields its value, \<^verbatim>\<open>None\<close>
  while unsolved.
\<close>

definition dot_value :: "env \<Rightarrow> expr \<Rightarrow> exn + pyobj" where
  "dot_value e x =
     (case x of
        Num c \<Rightarrow> Inl AttributeError
      | _ \<Rightarrow> Inr (case value_of (var_value e) x of None \<Rightarrow> PyNone | Some r \<Rightarrow> Object (Num r)))"

text \<open>
  The operator \<^verbatim>\<open>a / b\<close> on resolved ratings. A rating that is a Python number
  resolves to itself; a rating with a \<^verbatim>\<open>value\<close> attribute resolves to that value, a
  numpy number (or \<^verbatim>\<open>None\<close>). Two Python numbers are divided by Python, which raises
  \<^verbatim>\<open>ZeroDivisionError\<close> on a zero divisor. As soon as one operand is a numpy number
  the division is numpy's: on a zero divisor it raises nothing, issues a
  \<^verbatim>\<open>RuntimeWarning\<close> and yields \<^verbatim>\<open>inf\<close>, \<^verbatim>\<open>-inf\<close> or \<^verbatim>\<open>nan\<close>. \<^verbatim>\<open>None\<close> on
  either side raises \<^verbatim>\<open>TypeError\<close>.
\<close>

datatype division =
    Quotient rat
  | Nonfinite_with_RuntimeWarning
  | Raises exn

definition is_numpy :: "expr \<Rightarrow> bool" where
  "is_numpy x = (case x of Num c \<Rightarrow> False | _ \<Rightarrow> True)"

definition py_truediv :: "bool \<Rightarrow> pyobj \<Rightarrow> bool \<Rightarrow> pyobj \<Rightarrow> division" where
  "py_truediv a_numpy a b_numpy b =
     (case a of
        Object (Num x) \<Rightarrow>
          (case b of
             Object (Num y) \<Rightarrow>
               if y \<noteq> 0 then Quotient (x / y)
               else if a_numpy \<or> b_numpy then Nonfinite_with_RuntimeWarning
               else Raises ZeroDivisionError
           | _ \<Rightarrow> Raises TypeError)
      | _ \<Rightarrow> Raises TypeError)"

section \<open>ESSSizing\<close>

text \<open>
  The attributes of an \<^verbatim>\<open>ESSSizing\<close> object that the sizing code reads or writes.
  \<^verbatim>\<open>EnergyStorage.__init__\<close>, \<^verbatim>\<open>DERExtension.__init__\<close> and \<^verbatim>\<open>Sizing.__init__\<close>
  are not part of the sources; the object they leave behind is the argument of
  \<open>ESSSizing_init\<close>.
\<close>

record ess =
  tag :: string
  name :: string
  ene_max_rated :: expr
  ch_max_rated :: expr
  dis_max_rated :: expr
  llsoc :: rat
  ulsoc :: rat
  effective_soe_min :: expr
  effective_soe_max :: expr
  incl_energy_limits :: bool
  limit_energy_max :: "rat list option"
  incl_charge_limits :: bool
  limit_charge_max :: "rat list option"
  incl_discharge_limits :: bool
  limit_discharge_max :: "rat list option"
  size_constraints :: "constraint list"

definition log_error :: "string \<Rightarrow> env \<Rightarrow> env" where
  "log_error msg e = e\<lparr>e_logger := e_logger e @ [msg]\<rparr>"

definition ignoring_msg :: "string \<Rightarrow> ess \<Rightarrow> string \<Rightarrow> string" where
  "ignoring_msg what self cap =
     ''Ignoring '' @ what @ '' max time series because '' @ tag self @ ''-'' @ name self
       @ '' sizing for '' @ cap @ '' capacity''"

definition drop_energy_limit :: "ess \<times> env \<Rightarrow> ess \<times> env" where
  "drop_energy_limit s =
     (let self = fst s; e = snd s in
      if incl_energy_limits self \<and> limit_energy_max self \<noteq> None
      then (self\<lparr>limit_energy_max := None\<rparr>, log_error (ignoring_msg ''energy'' self ''energy'') e)
      else s)"

definition drop_charge_limit :: "ess \<times> env \<Rightarrow> ess \<times> env" where
  "drop_charge_limit s =
     (let self = fst s; e = snd s in
      if incl_charge_limits self \<and> limit_charge_max self \<noteq> None
      then (self\<lparr>limit_charge_max := None\<rparr>, log_error (ignoring_msg ''charge'' self ''power'') e)
      else s)"

definition drop_discharge_limit :: "ess \<times> env \<Rightarrow> ess \<times> env" where
  "drop_discharge_limit s =
     (let self = fst s; e = snd s in
      if incl_discharge_limits self \<and> limit_discharge_max self \<noteq> None
      then (self\<lparr>limit_discharge_max := None\<rparr>, log_error (ignoring_msg ''discharge'' self ''power'') e)
      else s)"

text \<open>Lines 41 to 49 of \<^verbatim>\<open>ESSSizing.__init__\<close>: the energy rating.\<close>

definition size_energy :: "ess \<times> env \<Rightarrow> ess \<times> env" where
  "size_energy s =
     (let self = fst s; e = snd s in
      if py_not (ene_max_rated self) then
        (let (v, e1) = cvx_Variable ''Energy_cap'' True e;
             self1 = self\<lparr>ene_max_rated := Var v\<rparr>;
             self2 = self1\<lparr>size_constraints :=
                       size_constraints self1 @ [NonPos (py_neg (ene_max_rated self1))]\<rparr>;
             self3 = self2\<lparr>effective_soe_min := py_mul (Num (llsoc self2)) (ene_max_rated self2)\<rparr>;
             self4 = self3\<lparr>effective_soe_max := py_mul (Num (ulsoc self3)) (ene_max_rated self3)\<rparr>
         in drop_energy_limit (self4, e1))
      else s)"

text \<open>Lines 51 to 75: the charge and discharge ratings.\<close>

definition size_power :: "ess \<times> env \<Rightarrow> ess \<times> env" where
  "size_power s =
     (let self = fst s; e = snd s in
      if py_not (ch_max_rated self) \<and> py_not (dis_max_rated self) then
        (let (v, e1) = cvx_Variable ''power_cap'' True e;
             self1 = self\<lparr>ch_max_rated := Var v\<rparr>;
             self2 = self1\<lparr>size_constraints :=
                       size_constraints self1 @ [NonPos (py_neg (ch_max_rated self1))]\<rparr>;
             self3 = self2\<lparr>dis_max_rated := ch_max_rated self2\<rparr>
         in drop_discharge_limit (drop_charge_limit (self3, e1)))
      else if py_not (ch_max_rated self) then
        (let (v, e1) = cvx_Variable ''charge_power_cap'' True e;
             self1 = self\<lparr>ch_max_rated := Var v\<rparr>;
             self2 = self1\<lparr>size_constraints :=
                       size_constraints self1 @ [NonPos (py_neg (ch_max_rated self1))]\<rparr>
         in drop_charge_limit (self2, e1))
      else if py_not (dis_max_rated self) then
        (let (v, e1) = cvx_Variable ''discharge_power_cap'' True e;
             self1 = self\<lparr>dis_max_rated := Var v\<rparr>;
             self2 = self1\<lparr>size_constraints :=
                       size_constraints self1 @ [NonPos (py_neg (dis_max_rated self1))]\<rparr>
         in drop_discharge_limit (self2, e1))
      else s)"

definition ESSSizing_init :: "ess \<Rightarrow> env \<Rightarrow> ess \<times> env" where
  "ESSSizing_init self e = size_power (size_energy (self, e))"

subsection \<open>Accessors\<close>

text \<open>
  Every method takes the object and its surroundings and returns its result with both,
  so that what a call changes, or does not change, is part of its value. The
  \<^verbatim>\<open>try\<close>/\<^verbatim>\<open>except AttributeError\<close> of the source is the case split on \<open>dot_value\<close>.
\<close>

definition resolve :: "expr \<Rightarrow> env \<Rightarrow> pyobj" where
  "resolve x e = (case dot_value e x of Inl err \<Rightarrow> Object x | Inr v \<Rightarrow> v)"

definition discharge_capacity :: "bool \<Rightarrow> ess \<times> env \<Rightarrow> pyobj \<times> (ess \<times> env)" where
  "discharge_capacity solution s =
     (if \<not> solution then (Object (dis_max_rated (fst s)), s)
      else (resolve (dis_max_rated (fst s)) (snd s), s))"

definition charge_capacity :: "bool \<Rightarrow> ess \<times> env \<Rightarrow> pyobj \<times> (ess \<times> env)" where
  "charge_capacity solution s =
     (if \<not> solution then (Object (dis_max_rated (fst s)), s)
      else (resolve (ch_max_rated (fst s)) (snd s), s))"

definition energy_capacity :: "bool \<Rightarrow> ess \<times> env \<Rightarrow> pyobj \<times> (ess \<times> env)" where
  "energy_capacity solution s =
     (if \<not> solution then (Object (ene_max_rated (fst s)), s)
      else (resolve (ene_max_rated (fst s)) (snd s), s))"

definition operational_max_energy :: "bool \<Rightarrow> ess \<times> env \<Rightarrow> pyobj \<times> (ess \<times> env)" where
  "operational_max_energy solution s =
     (if \<not> solution then (Object (effective_soe_max (fst s)), s)
      else (resolve (effective_soe_max (fst s)) (snd s), s))"

definition operational_min_energy :: "bool \<Rightarrow> ess \<times> env \<Rightarrow> pyobj \<times> (ess \<times> env)" where
  "operational_min_energy solution s =
     (if \<not> solution then (Object (effective_soe_min (fst s)), s)
      else (resolve (effective_soe_min (fst s)) (snd s), s))"

text \<open>
  \<^verbatim>\<open>calculate_duration\<close>: the division is the last thing the method does, with no check
  before it and no handler around it, so what the division yields or raises is what the
  method returns or raises. The energy rating is a numpy number when it was read from
  \<^verbatim>\<open>ene_max_rated.value\<close>, the discharge rating when it was read from
  \<^verbatim>\<open>dis_max_rated.value\<close>.
\<close>

definition calculate_duration :: "ess \<times> env \<Rightarrow> division \<times> (ess \<times> env)" where
  "calculate_duration s =
     (let energy_rated = resolve (ene_max_rated (fst s)) (snd s);
          (d, s1) = discharge_capacity True s
      in (py_truediv (is_numpy (ene_max_rated (fst s))) energy_rated
                     (is_numpy (dis_max_rated (fst s))) d, s1))"

section \<open>DieselSizing\<close>

text \<open>
  \<^verbatim>\<open>storagevet.Diesel.__init__\<close> is not part of the sources; it leaves the fixed capital
  cost \<^verbatim>\<open>capital_cost\<close>, the capital cost per kW \<^verbatim>\<open>ccost_kw\<close> and the rated power
  \<^verbatim>\<open>p_max\<close> of one generator. \<^verbatim>\<open>DieselSizing.__init__\<close> adds the unit count and the
  capital cost expression.
\<close>

record diesel =
  capital_cost :: rat
  ccost_kw :: rat
  p_max :: rat
  n_min :: rat
  n_max :: rat
  n :: expr
  capex :: expr

definition DieselSizing_init :: "diesel \<Rightarrow> rat \<Rightarrow> rat \<Rightarrow> env \<Rightarrow> diesel \<times> env" where
  "DieselSizing_init self params_n_min params_n_max e =
     (let self1 = self\<lparr>n_min := params_n_min\<rparr>;
          self2 = self1\<lparr>n_max := params_n_max\<rparr>;
          (v, e1) = cvx_Variable ''generators'' True e;
          self3 = self2\<lparr>n := Var v\<rparr>;
          self4 = self3\<lparr>capex := py_add (py_mul (Num (capital_cost self3)) (n self3))
                                          (py_mul (Num (capital_cost self3)) (Num (p_max self3)))\<rparr>
      in (self4, e1))"

section \<open>MicrogridScenario\<close>

text \<open>
  A DER in the scenario's fleet is its \<^verbatim>\<open>technology_type\<close> and the rest of the object,
  which only code outside the sources reads and writes. The calls a method makes on its
  collaborators are recorded, in order, in \<open>calls\<close>; a DER or a value stream is named
  by its position in \<^verbatim>\<open>poi.der_list\<close> or in \<^verbatim>\<open>service_agg.value_streams\<close>.
\<close>

record 'd der =
  technology_type :: string
  body :: 'd

datatype event =
    Apply_past_degredation nat int
  | Run_optimization int
  | Calc_degradation nat int nat nat
  | Concat_objective_values int
  | Der_save_variable_results nat "nat list"
  | Vs_save_variable_results nat "nat list"

record der_limits =
  generation :: "rat list"
  total_pv_max :: "rat list"
  ess_properties :: "string \<Rightarrow> rat"
  demand_left :: "rat list"
  reliability_check :: "rat list"

text \<open>
  The collaborators of the scenario that are not part of the sources: the service
  aggregator's and the POI's queries, the DERs' and value streams' methods, the set-up and
  solve of one window (which stores the solved values in the DERs and value streams), the
  Reliability value stream's methods, the annuity scalar of the scenario's finance inputs,
  and numpy's \<^verbatim>\<open>argsort\<close>.
\<close>

record ('d, 'vs, 'obj, 'req) collaborators =
  is_whole_sale_market :: "(string \<times> 'vs) list \<Rightarrow> bool"
  post_facto_reliability_only :: "(string \<times> 'vs) list \<Rightarrow> bool"
  is_deferral_only :: "(string \<times> 'vs) list \<Rightarrow> bool"
  is_dcp_error :: "bool \<Rightarrow> 'd der list \<Rightarrow> bool"
  annuity_scalar :: rat
  check_system_requirements :: "'d der list \<Rightarrow> (string \<times> 'vs) list \<Rightarrow> 'req"
  apply_past_degredation :: "int \<Rightarrow> 'd \<Rightarrow> 'd"
  run_optimization :: "bool list \<Rightarrow> 'req \<Rightarrow> rat \<Rightarrow> bool \<Rightarrow> int \<Rightarrow> 'd der list
                         \<Rightarrow> (string \<times> 'vs) list \<Rightarrow> 'obj \<times> (nat \<Rightarrow> 'd) \<times> (nat \<Rightarrow> 'vs)"
  calc_degradation :: "int \<Rightarrow> nat \<Rightarrow> nat \<Rightarrow> 'd \<Rightarrow> 'd"
  der_save_variable_results :: "nat list \<Rightarrow> 'd \<Rightarrow> 'd"
  vs_save_variable_results :: "nat list \<Rightarrow> 'vs \<Rightarrow> 'vs"
  set_size :: "'d \<Rightarrow> 'd"
  critical_load :: "'vs \<Rightarrow> rat list"
  soc_init :: "'vs \<Rightarrow> rat"
  outage_duration :: "'vs \<Rightarrow> rat"
  get_der_limits :: "'vs \<Rightarrow> 'd der list \<Rightarrow> bool \<Rightarrow> der_limits"
  reliability_sizing_for_analy_indices :: "'vs \<Rightarrow> bool list \<Rightarrow> nat list \<Rightarrow> 'd der list \<Rightarrow> 'd der list"
  simulate_outage :: "'vs \<Rightarrow> rat list \<Rightarrow> rat list \<Rightarrow> rat \<Rightarrow> (string \<Rightarrow> rat) \<Rightarrow> rat \<Rightarrow> rat list"
  reliability_min_soe_iterative :: "'vs \<Rightarrow> bool list \<Rightarrow> 'd der list \<Rightarrow> 'vs"
  np_argsort :: "rat list \<Rightarrow> nat list"

record ('d, 'vs, 'obj) scenario =
  is_sizing_optimization :: bool
  der_list :: "'d der list"
  value_streams :: "(string \<times> 'vs) list"
  incl_binary :: bool
  optimization_levels :: "int list"
  objective_values :: "'obj list"
  calls :: "event list"

definition log_info :: "string \<Rightarrow> env \<Rightarrow> env" where
  "log_info msg e = e\<lparr>u_logger := u_logger e @ [msg]\<rparr>"

text \<open>
  A \<^verbatim>\<open>for\<close> loop over a list of objects: the body updates the object at position \<open>i\<close>
  and records the calls it makes.
\<close>

fun for_each :: "(nat \<Rightarrow> 'a \<Rightarrow> 'a \<times> event list) \<Rightarrow> nat \<Rightarrow> 'a list \<Rightarrow> 'a list \<times> event list" where
  "for_each f i [] = ([], [])"
| "for_each f i (x # xs) =
     (let (x1, ev) = f i x; (xs1, evs) = for_each f (Suc i) xs in (x1 # xs1, ev @ evs))"

text \<open>pandas' \<^verbatim>\<open>unique()\<close>: the distinct values in order of first appearance.\<close>

definition unique :: "'a list \<Rightarrow> 'a list" where
  "unique xs = map (\<lambda>i. xs ! i) [i \<leftarrow> [0..<length xs]. xs ! i \<notin> set (take i xs)]"

text \<open>The index of the rows selected by the mask of a period, as positions in the time series.\<close>

definition sub_index_of :: "int list \<Rightarrow> int \<Rightarrow> nat list" where
  "sub_index_of levels opt_period = [i \<leftarrow> [0..<length levels]. levels ! i = opt_period]"

definition ESS_type :: string where
  "ESS_type = ''Energy Storage System''"

text \<open>Lines 136 to 138: apply past degradation to the storage DERs.\<close>

definition apply_degradation_phase ::
  "('d, 'vs, 'obj, 'req) collaborators \<Rightarrow> int \<Rightarrow> ('d, 'vs, 'obj) scenario \<Rightarrow> ('d, 'vs, 'obj) scenario" where
  "apply_degradation_phase X opt_period s =
     (let (ders, ev) =
            for_each (\<lambda>i d. if technology_type d = ESS_type
                             then (d\<lparr>body := apply_past_degredation X opt_period (body d)\<rparr>,
                                   [Apply_past_degredation i opt_period])
                             else (d, [])) 0 (der_list s)
      in s\<lparr>der_list := ders, calls := calls s @ ev\<rparr>)"

text \<open>Lines 144 to 147: set up and run the optimization of the window.\<close>

definition solve_phase ::
  "('d, 'vs, 'obj, 'req) collaborators \<Rightarrow> 'req \<Rightarrow> rat \<Rightarrow> int \<Rightarrow> ('d, 'vs, 'obj) scenario
     \<Rightarrow> 'obj \<times> ('d, 'vs, 'obj) scenario" where
  "solve_phase X system_requirements alpha opt_period s =
     (let mask0 = map (\<lambda>p. p = opt_period) (optimization_levels s);
          (objective, new_d, new_vs) =
             run_optimization X mask0 system_requirements alpha
               (post_facto_reliability_only X (value_streams s)) opt_period
               (der_list s) (value_streams s)
      in (objective,
          s\<lparr>der_list := fst (for_each (\<lambda>i d. (d\<lparr>body := new_d i\<rparr>, [])) 0 (der_list s)),
            value_streams := fst (for_each (\<lambda>i kv. ((fst kv, new_vs i), [])) 0 (value_streams s)),
            calls := calls s @ [Run_optimization opt_period]\<rparr>))"

text \<open>Lines 150 to 153: compute the degradation of the storage DERs over the window.\<close>

definition calc_degradation_phase ::
  "('d, 'vs, 'obj, 'req) collaborators \<Rightarrow> int \<Rightarrow> ('d, 'vs, 'obj) scenario \<Rightarrow> ('d, 'vs, 'obj) scenario" where
  "calc_degradation_phase X opt_period s =
     (let sub_index = sub_index_of (optimization_levels s) opt_period;
          (ders, ev) =
            for_each (\<lambda>i d. if technology_type d = ESS_type
                             then (d\<lparr>body := calc_degradation X opt_period (hd sub_index) (last sub_index) (body d)\<rparr>,
                                   [Calc_degradation i opt_period (hd sub_index) (last sub_index)])
                             else (d, [])) 0 (der_list s)
      in s\<lparr>der_list := ders, calls := calls s @ ev\<rparr>)"

text \<open>Line 156: add the objective values of the window to the running total.\<close>

definition concat_phase :: "int \<Rightarrow> 'obj \<Rightarrow> ('d, 'vs, 'obj) scenario \<Rightarrow> ('d, 'vs, 'obj) scenario" where
  "concat_phase opt_period objective s =
     s\<lparr>objective_values := objective_values s @ [objective],
       calls := calls s @ [Concat_objective_values opt_period]\<rparr>"

text \<open>Lines 159 to 162: record the solution of every DER, then of every value stream.\<close>

definition save_phase ::
  "('d, 'vs, 'obj, 'req) collaborators \<Rightarrow> int \<Rightarrow> ('d, 'vs, 'obj) scenario \<Rightarrow> ('d, 'vs, 'obj) scenario" where
  "save_phase X opt_period s =
     (let sub_index = sub_index_of (optimization_levels s) opt_period;
          (ders, ev1) =
            for_each (\<lambda>i d. (d\<lparr>body := der_save_variable_results X sub_index (body d)\<rparr>,
                              [Der_save_variable_results i sub_index])) 0 (der_list s);
          (vss, ev2) =
            for_each (\<lambda>i kv. ((fst kv, vs_save_variable_results X sub_index (snd kv)),
                               [Vs_save_variable_results i sub_index])) 0 (value_streams s)
      in s\<lparr>der_list := ders, value_streams := vss, calls := calls s @ ev1 @ ev2\<rparr>)"

text \<open>The body of the loop over the optimization periods.\<close>

definition optimize_window ::
  "('d, 'vs, 'obj, 'req) collaborators \<Rightarrow> 'req \<Rightarrow> rat \<Rightarrow> int \<Rightarrow> ('d, 'vs, 'obj) scenario
     \<Rightarrow> ('d, 'vs, 'obj) scenario" where
  "optimize_window X system_requirements alpha opt_period s =
     (let s1 = apply_degradation_phase X opt_period s;
          (objective, s2) = solve_phase X system_requirements alpha opt_period s1;
          s3 = calc_degradation_phase X opt_period s2;
          s4 = concat_phase opt_period objective s3
      in save_phase X opt_period s4)"

text \<open>
  \<^verbatim>\<open>optimize_problem_loop\<close>. The result is the returned flag with the scenario and its
  surroundings. Console output under \<^verbatim>\<open>verbose\<close> is not modelled.
\<close>

definition optimize_problem_loop ::
  "('d, 'vs, 'obj, 'req) collaborators \<Rightarrow> ('d, 'vs, 'obj) scenario \<times> env
     \<Rightarrow> bool \<times> (('d, 'vs, 'obj) scenario \<times> env)" where
  "optimize_problem_loop X st =
     (let s = fst st; e = snd st in
      if is_sizing_optimization s \<and> is_whole_sale_market X (value_streams s) then
        (False, (s, log_error ''Params Error: trying to size the power of the battery to maximize profits in wholesale markets'' e))
      else if is_sizing_optimization s \<and> post_facto_reliability_only X (value_streams s) then
        (False, (s, log_error ''Params Error: trying to size and preform post facto calculations only'' e))
      else if is_sizing_optimization s \<and> is_dcp_error X (incl_binary s) (der_list s) then
        (False, (s, log_error ''Params Error: trying to size power and use binary formulation results in nonlinear models'' e))
      else
        (let alpha = (if is_sizing_optimization s then annuity_scalar X else 1) in
         if is_deferral_only X (value_streams s) \<or> post_facto_reliability_only X (value_streams s) then
           (True, (s, log_info ''Only active Value Stream is Deferral or post facto only, so not optimizations will run...'' e))
         else
           (let system_requirements = check_system_requirements X (der_list s) (value_streams s);
                e1 = log_info ''Starting optimization loop'' e
            in (True,
                (fold (optimize_window X system_requirements alpha) (unique (optimization_levels s)) s,
                 e1)))))"

subsection \<open>Reliability based sizing\<close>

text \<open>
  numpy's \<^verbatim>\<open>around\<close>: rounding to the given number of decimals, halves to the even
  neighbour.
\<close>

definition np_around :: "nat \<Rightarrow> rat \<Rightarrow> rat" where
  "np_around decimals x =
     (let y = x * 10 ^ decimals; f = \<lfloor>y\<rfloor>; r = y - of_int f
      in of_int (if r < 1 / 2 then f else if 1 / 2 < r then f + 1
                 else if even f then f else f + 1) / 10 ^ decimals)"

text \<open>
  Lines 199 to 210: the sweep over every start index of the horizon. It returns
  \<^verbatim>\<open>First_failure_ind\<close>: the first start index whose simulated outage is shorter than
  the outage duration and shorter than the rest of the horizon, or \<open>-1\<close>.
\<close>

function verification_sweep ::
  "('d, 'vs, 'obj, 'req) collaborators \<Rightarrow> 'vs \<Rightarrow> der_limits \<Rightarrow> rat list \<Rightarrow> nat \<Rightarrow> int" where
  "verification_sweep X reliability_mod limits soc outage_init =
     (if outage_init < length (critical_load X reliability_mod) then
        (let soc_profile =
               simulate_outage X reliability_mod
                 (drop outage_init (reliability_check limits)) (drop outage_init (demand_left limits))
                 (outage_duration X reliability_mod) (ess_properties limits) (soc ! outage_init);
             longest_outage = length soc_profile
         in if of_nat longest_outage < outage_duration X reliability_mod
               \<and> longest_outage < length (critical_load X reliability_mod) - outage_init
            then int outage_init
            else verification_sweep X reliability_mod limits soc (outage_init + 1))
      else - 1)"
  by pat_completeness auto
termination
  by (relation "measure (\<lambda>(X, reliability_mod, limits, soc, outage_init).
        length (critical_load X reliability_mod) - outage_init)") auto

declare verification_sweep.simps [simp del]

text \<open>
  Lines 193 to 216: the loop \<^verbatim>\<open>while IsReliable == 'No'\<close> on the candidate outage
  indices and the fleet. The source gives it no bound, so it is a partial function:
  \<open>None\<close> is the loop that never leaves.
\<close>

partial_function (option) sizing_loop ::
  "('d, 'vs, 'obj, 'req) collaborators \<Rightarrow> 'vs \<Rightarrow> bool list \<Rightarrow> nat list \<times> 'd der list
     \<Rightarrow> (nat list \<times> 'd der list) option" where
  "sizing_loop X reliability_mod mask0 st =
     (let analysis_indices = fst st;
          der_list1 = reliability_sizing_for_analy_indices X reliability_mod mask0 analysis_indices (snd st);
          limits = get_der_limits X reliability_mod der_list1 False;
          soc = map (\<lambda>x. x * ess_properties limits ''energy rating'')
                  (replicate (length (critical_load X reliability_mod)) (soc_init X reliability_mod));
          First_failure_ind = verification_sweep X reliability_mod limits soc 0
      in if First_failure_ind > 0
         then sizing_loop X reliability_mod mask0 (analysis_indices @ [nat First_failure_ind], der_list1)
         else Some (analysis_indices, der_list1))"

text \<open>
  Lines 176 to 183: the unserved load of every time step, rounded to 5 decimals, and the
  indices the fleet is sized for first. The arrays are those of the whole horizon.
\<close>

definition max_load_demand_unserved ::
  "('d, 'vs, 'obj, 'req) collaborators \<Rightarrow> 'vs \<Rightarrow> der_limits \<Rightarrow> rat list" where
  "max_load_demand_unserved X reliability_mod limits =
     map (\<lambda>(c, g, pv). np_around 5 (c - g - pv))
       (zip (critical_load X reliability_mod) (zip (generation limits) (total_pv_max limits)))"

definition initial_analysis_indices ::
  "('d, 'vs, 'obj, 'req) collaborators \<Rightarrow> 'vs \<Rightarrow> der_limits \<Rightarrow> nat list" where
  "initial_analysis_indices X reliability_mod limits =
     (let top_n_outages = 10;
          indices = np_argsort X (map (\<lambda>u. - 1 * u) (max_load_demand_unserved X reliability_mod limits))
      in take top_n_outages indices)"

text \<open>
  \<^verbatim>\<open>Reliability_based_sizing_module\<close>. The result is the scenario the call leaves, or
  \<open>None\<close> when the call does not return. The deep copy of the fleet is the fleet's value;
  console output is not modelled.
\<close>

definition Reliability_based_sizing_module ::
  "('d, 'vs, 'obj, 'req) collaborators \<Rightarrow> ('d, 'vs, 'obj) scenario
     \<Rightarrow> ('d, 'vs, 'obj) scenario option" where
  "Reliability_based_sizing_module X s =
     (case map_of (value_streams s) ''Reliability'' of
        None \<Rightarrow> Some s
      | Some reliability_mod \<Rightarrow>
          if \<not> is_sizing_optimization s then Some s
          else
            (let der_list0 = der_list s;
                 limits = get_der_limits X reliability_mod der_list0 True;
                 analysis_indices = initial_analysis_indices X reliability_mod limits;
                 mask0 = replicate (length (optimization_levels s)) False
             in case sizing_loop X reliability_mod mask0 (analysis_indices, der_list0) of
                  None \<Rightarrow> None
                | Some final \<Rightarrow>
                    (let der_list2 = map (\<lambda>d. d\<lparr>body := set_size X (body d)\<rparr>) (snd final);
                         reliability_mod1 = reliability_min_soe_iterative X reliability_mod mask0 der_list2
                     in Some (s\<lparr>der_list := der_list2,
                                value_streams :=
                                  map (\<lambda>kv. if fst kv = ''Reliability'' then (fst kv, reliability_mod1) else kv)
                                    (value_streams s)\<rparr>))))"

section \<open>Sample objects\<close>

text \<open>Concrete objects on which the theorems below are evaluated.\<close>

definition env0 :: env where
  "env0 = \<lparr>next_id = 0, var_value = (\<lambda>i. None), e_logger = [], u_logger = []\<rparr>"

text \<open>
  A battery as the base classes leave it, with the given energy, charge and discharge
  ratings, SOC limits of 10 and 90 percent and a time series limit on its energy.
\<close>

definition ess_input :: "rat \<Rightarrow> rat \<Rightarrow> rat \<Rightarrow> ess" where
  "ess_input ene ch dis =
     \<lparr>tag = ''Battery'', name = ''es'', ene_max_rated = Num ene, ch_max_rated = Num ch,
      dis_max_rated = Num dis, llsoc = 1 / 10, ulsoc = 9 / 10,
      effective_soe_min = Num (1 / 10 * ene), effective_soe_max = Num (9 / 10 * ene),
      incl_energy_limits = True, limit_energy_max = Some [50, 60],
      incl_charge_limits = False, limit_charge_max = None,
      incl_discharge_limits = False, limit_discharge_max = None,
      size_constraints = []\<rparr>"

text \<open>A solve: the solver stores a value in each variable.\<close>

definition solve_with :: "(nat \<Rightarrow> rat option) \<Rightarrow> ess \<times> env \<Rightarrow> ess \<times> env" where
  "solve_with sol s = (fst s, (snd s)\<lparr>var_value := sol\<rparr>)"

text \<open>A generator of 10 kW with a fixed capital cost of 100 and a capital cost of 7 per kW.\<close>

definition diesel_input :: diesel where
  "diesel_input = \<lparr>capital_cost = 100, ccost_kw = 7, p_max = 10, n_min = 0, n_max = 0,
                    n = Num 0, capex = Num 0\<rparr>"

text \<open>
  A fleet of a battery and a generator, two value streams and a horizon of three time
  steps in two optimization periods. The collaborators: degradation is counted in the
  body of a DER, a solve leaves the objects as they are and returns the period as its
  objective value, and the binary formulation is the only conflict with sizing.
\<close>

fun demo_simulate :: "rat \<Rightarrow> nat \<Rightarrow> rat list \<Rightarrow> rat list" where
  "demo_simulate soc 0 demand = []"
| "demo_simulate soc (Suc k) [] = []"
| "demo_simulate soc (Suc k) (d # ds) =
     (if d \<le> soc then (soc - d) # demo_simulate (soc - d) k ds else [])"

definition demo_limits :: der_limits where
  "demo_limits = \<lparr>generation = [0, 0, 0], total_pv_max = [0, 0, 0],
                   ess_properties = (\<lambda>k. if k = ''energy rating'' then 5 else 0),
                   demand_left = [5, 5, 5], reliability_check = [5, 5, 5]\<rparr>"

definition demo :: "(nat, nat, int, unit) collaborators" where
  "demo = \<lparr>is_whole_sale_market = (\<lambda>vs. False),
           post_facto_reliability_only = (\<lambda>vs. False),
           is_deferral_only = (\<lambda>vs. False),
           is_dcp_error = (\<lambda>binary ders. binary),
           annuity_scalar = 12,
           check_system_requirements = (\<lambda>ders vs. ()),
           apply_past_degredation = (\<lambda>p b. b),
           run_optimization = (\<lambda>m req alpha ign p ders vs.
                                 (p, (\<lambda>i. body (ders ! i)), (\<lambda>i. snd (vs ! i)))),
           calc_degradation = (\<lambda>p first_i last_i b. Suc b),
           der_save_variable_results = (\<lambda>idx b. b),
           vs_save_variable_results = (\<lambda>idx v. v),
           set_size = (\<lambda>b. b),
           critical_load = (\<lambda>rm. [5, 5, 5]),
           soc_init = (\<lambda>rm. 1),
           outage_duration = (\<lambda>rm. 2),
           get_der_limits = (\<lambda>rm ders flag. demo_limits),
           reliability_sizing_for_analy_indices = (\<lambda>rm m idx ders. ders),
           simulate_outage = (\<lambda>rm check demand dur props soc. demo_simulate soc (nat \<lfloor>dur\<rfloor>) demand),
           reliability_min_soe_iterative = (\<lambda>rm m ders. rm),
           np_argsort = (\<lambda>xs. sort_key (\<lambda>i. xs ! i) [0..<length xs])\<rparr>"

definition demo_fleet :: "nat der list" where
  "demo_fleet = [\<lparr>technology_type = ''Energy Storage System'', body = 0\<rparr>,
                 \<lparr>technology_type = ''Generator'', body = 0\<rparr>]"

definition demo_scenario :: "bool \<Rightarrow> bool \<Rightarrow> (nat, nat, int) scenario" where
  "demo_scenario sizing binary =
     \<lparr>is_sizing_optimization = sizing, der_list = demo_fleet,
      value_streams = [(''Reliability'', 0), (''DA'', 0)], incl_binary = binary,
      optimization_levels = [1, 1, 2], objective_values = [], calls = []\<rparr>"

text \<open>
  Collaborators whose every method leaves its mark: applying past degradation adds 1 to
  the body of a DER, the solve doubles it, computing the degradation adds 100 and saving
  adds 1000 per time step of the period; the solve adds 1 to a value stream and saving
  adds 10 per time step; the objective value of a period is the period plus the body of
  the first DER as the solve sees it.
\<close>

definition demo_rolling :: "(nat, nat, int, unit) collaborators" where
  "demo_rolling =
     demo\<lparr>apply_past_degredation := (\<lambda>p b. b + 1),
          run_optimization := (\<lambda>m req alpha ign p ders vs.
                                 (p + int (body (ders ! 0)), (\<lambda>i. 2 * body (ders ! i)),
                                  (\<lambda>i. snd (vs ! i) + 1))),
          calc_degradation := (\<lambda>p first_i last_i b. b + 100),
          der_save_variable_results := (\<lambda>idx b. b + 1000 * length idx),
          vs_save_variable_results := (\<lambda>idx v. v + 10 * length idx)\<rparr>"


text \<open>Two time steps with no generation, for the ranking of the first outages.\<close>

definition two_step_limits :: der_limits where
  "two_step_limits = \<lparr>generation = [0, 0], total_pv_max = [0, 0],
                       ess_properties = (\<lambda>k. if k = ''energy rating'' then 5 else 0),
                       demand_left = [0, 0], reliability_check = [0, 0]\<rparr>"

definition two_steps ::
  "(rat list \<Rightarrow> nat list) \<Rightarrow> rat list \<Rightarrow> (nat, nat, int, unit) collaborators" where
  "two_steps argsort load = demo\<lparr>np_argsort := argsort, critical_load := (\<lambda>rm. load)\<rparr>"

section \<open>The ranking of the first outages, as specified\<close>

text \<open>
  The first candidate indices as the specification words them: all time steps sorted by
  unmet load (critical load minus available generation), largest first, equal unmet loads
  in time order, and the first ten of them. \<open>sort_key\<close> is an insertion sort and keeps
  the order of equal keys.
\<close>

definition unmet_load ::
  "('d, 'vs, 'obj, 'req) collaborators \<Rightarrow> 'vs \<Rightarrow> der_limits \<Rightarrow> rat list" where
  "unmet_load X reliability_mod limits =
     map (\<lambda>(c, g, pv). c - g - pv)
       (zip (critical_load X reliability_mod) (zip (generation limits) (total_pv_max limits)))"

definition ranked_by_unmet_load ::
  "('d, 'vs, 'obj, 'req) collaborators \<Rightarrow> 'vs \<Rightarrow> der_limits \<Rightarrow> nat list" where
  "ranked_by_unmet_load X reliability_mod limits =
     take 10 (sort_key (\<lambda>i. - (unmet_load X reliability_mod limits ! i))
                [0..<length (unmet_load X reliability_mod limits)])"

section \<open>The order of calls of the rolling horizon, as specified\<close>

text \<open>
  The calls one period is specified to make, in order: past degradation applied to every
  storage DER, the solve of the window, the degradation of the window computed for every
  storage DER, the objective values appended, the results of every DER saved and then
  those of every value stream. \<open>types\<close> are the technology types of the fleet in order
  and \<open>n_vs\<close> the number of value streams.
\<close>

definition ess_positions :: "string list \<Rightarrow> nat list" where
  "ess_positions types = map fst (filter (\<lambda>it. snd it = ESS_type) (enumerate 0 types))"

definition window_calls :: "string list \<Rightarrow> nat \<Rightarrow> int list \<Rightarrow> int \<Rightarrow> event list" where
  "window_calls types n_vs levels opt_period =
     (let sub_index = sub_index_of levels opt_period in
      map (\<lambda>i. Apply_past_degredation i opt_period) (ess_positions types)
      @ [Run_optimization opt_period]
      @ map (\<lambda>i. Calc_degradation i opt_period (hd sub_index) (last sub_index)) (ess_positions types)
      @ [Concat_objective_values opt_period]
      @ map (\<lambda>i. Der_save_variable_results i sub_index) [0..<length types]
      @ map (\<lambda>i. Vs_save_variable_results i sub_index) [0..<n_vs])"

text \<open>
  The fleet one period leaves to the next: every storage DER has had its past degradation
  applied before the solve, every DER holds what the solve stored in it, every storage
  DER has had the degradation of the window computed on top of that, and every DER has
  saved its results.
\<close>

definition fleet_after_window ::
  "('d, 'vs, 'obj, 'req) collaborators \<Rightarrow> 'req \<Rightarrow> rat \<Rightarrow> int \<Rightarrow> ('d, 'vs, 'obj) scenario
     \<Rightarrow> 'd der list" where
  "fleet_after_window X system_requirements alpha opt_period s =
     (let sub_index = sub_index_of (optimization_levels s) opt_period;
          ders1 = map (\<lambda>d. if technology_type d = ESS_type
                              then d\<lparr>body := apply_past_degredation X opt_period (body d)\<rparr>
                              else d) (der_list s);
          new_d = fst (snd (run_optimization X (map (\<lambda>q. q = opt_period) (optimization_levels s))
                              system_requirements alpha
                              (post_facto_reliability_only X (value_streams s)) opt_period
                              ders1 (value_streams s)))
      in map (\<lambda>id. (snd id)\<lparr>body := der_save_variable_results X sub_index
                         (if technology_type (snd id) = ESS_type
                          then calc_degradation X opt_period (hd sub_index) (last sub_index)
                                 (new_d (fst id))
                          else new_d (fst id))\<rparr>)
           (enumerate 0 ders1))"

text \<open>
  The scenario one period leaves to the next, field by field. The solve of the period
  sees the fleet with past degradation applied and the value streams as the previous
  period left them. Its objective values are appended to the running total; every value
  stream holds what the solve stored in it, with its results for the period saved; the
  fleet is \<open>fleet_after_window\<close>; the calls are those of \<open>window_calls\<close>.
\<close>

definition fleet_before_solve ::
  "('d, 'vs, 'obj, 'req) collaborators \<Rightarrow> int \<Rightarrow> ('d, 'vs, 'obj) scenario \<Rightarrow> 'd der list" where
  "fleet_before_solve X opt_period s =
     map (\<lambda>d. if technology_type d = ESS_type
                then d\<lparr>body := apply_past_degredation X opt_period (body d)\<rparr> else d) (der_list s)"

definition window_solution ::
  "('d, 'vs, 'obj, 'req) collaborators \<Rightarrow> 'req \<Rightarrow> rat \<Rightarrow> int \<Rightarrow> ('d, 'vs, 'obj) scenario
     \<Rightarrow> 'obj \<times> (nat \<Rightarrow> 'd) \<times> (nat \<Rightarrow> 'vs)" where
  "window_solution X system_requirements alpha opt_period s =
     run_optimization X (map (\<lambda>q. q = opt_period) (optimization_levels s))
       system_requirements alpha (post_facto_reliability_only X (value_streams s)) opt_period
       (fleet_before_solve X opt_period s) (value_streams s)"

definition services_after_window ::
  "('d, 'vs, 'obj, 'req) collaborators \<Rightarrow> 'req \<Rightarrow> rat \<Rightarrow> int \<Rightarrow> ('d, 'vs, 'obj) scenario
     \<Rightarrow> (string \<times> 'vs) list" where
  "services_after_window X system_requirements alpha opt_period s =
     (let sub_index = sub_index_of (optimization_levels s) opt_period;
          new_vs = snd (snd (window_solution X system_requirements alpha opt_period s))
      in map (\<lambda>ikv. (fst (snd ikv), vs_save_variable_results X sub_index (new_vs (fst ikv))))
           (enumerate 0 (value_streams s)))"

definition objective_of_window ::
  "('d, 'vs, 'obj, 'req) collaborators \<Rightarrow> 'req \<Rightarrow> rat \<Rightarrow> int \<Rightarrow> ('d, 'vs, 'obj) scenario \<Rightarrow> 'obj" where
  "objective_of_window X system_requirements alpha opt_period s =
     fst (window_solution X system_requirements alpha opt_period s)"

definition scenario_after_window ::
  "('d, 'vs, 'obj, 'req) collaborators \<Rightarrow> 'req \<Rightarrow> rat \<Rightarrow> int \<Rightarrow> ('d, 'vs, 'obj) scenario
     \<Rightarrow> ('d, 'vs, 'obj) scenario" where
  "scenario_after_window X system_requirements alpha opt_period s =
     s\<lparr>der_list := fleet_after_window X system_requirements alpha opt_period s,
       value_streams := services_after_window X system_requirements alpha opt_period s,
       objective_values :=
         objective_values s @ [objective_of_window X system_requirements alpha opt_period s],
       calls := calls s @ window_calls (map technology_type (der_list s))
                            (length (value_streams s)) (optimization_levels s) opt_period\<rparr>"

section \<open>Properties of ESSSizing\<close>

lemma drop_charge_limit_frame:
  "ene_max_rated (fst (drop_charge_limit s)) = ene_max_rated (fst s)"
  "effective_soe_min (fst (drop_charge_limit s)) = effective_soe_min (fst s)"
  "effective_soe_max (fst (drop_charge_limit s)) = effective_soe_max (fst s)"
  "llsoc (fst (drop_charge_limit s)) = llsoc (fst s)"
  "ulsoc (fst (drop_charge_limit s)) = ulsoc (fst s)"
  "limit_energy_max (fst (drop_charge_limit s)) = limit_energy_max (fst s)"
  "size_constraints (fst (drop_charge_limit s)) = size_constraints (fst s)"
  by (auto simp: drop_charge_limit_def Let_def log_error_def)

lemma drop_discharge_limit_frame:
  "ene_max_rated (fst (drop_discharge_limit s)) = ene_max_rated (fst s)"
  "effective_soe_min (fst (drop_discharge_limit s)) = effective_soe_min (fst s)"
  "effective_soe_max (fst (drop_discharge_limit s)) = effective_soe_max (fst s)"
  "llsoc (fst (drop_discharge_limit s)) = llsoc (fst s)"
  "ulsoc (fst (drop_discharge_limit s)) = ulsoc (fst s)"
  "limit_energy_max (fst (drop_discharge_limit s)) = limit_energy_max (fst s)"
  "size_constraints (fst (drop_discharge_limit s)) = size_constraints (fst s)"
  by (auto simp: drop_discharge_limit_def Let_def log_error_def)

lemma drop_limit_log:
  "\<exists>msgs. e_logger (snd (drop_charge_limit s)) = e_logger (snd s) @ msgs"
  "\<exists>msgs. e_logger (snd (drop_discharge_limit s)) = e_logger (snd s) @ msgs"
  by (simp_all add: drop_charge_limit_def drop_discharge_limit_def Let_def log_error_def)

text \<open>Sizing the power ratings leaves the energy rating and everything derived from it alone.\<close>

lemma size_power_frame:
  "ene_max_rated (fst (size_power s)) = ene_max_rated (fst s)"
  "effective_soe_min (fst (size_power s)) = effective_soe_min (fst s)"
  "effective_soe_max (fst (size_power s)) = effective_soe_max (fst s)"
  "llsoc (fst (size_power s)) = llsoc (fst s)"
  "ulsoc (fst (size_power s)) = ulsoc (fst s)"
  "limit_energy_max (fst (size_power s)) = limit_energy_max (fst s)"
  by (simp_all add: size_power_def Let_def cvx_Variable_def drop_charge_limit_frame
        drop_discharge_limit_frame)

lemma size_power_grows:
  "set (size_constraints (fst s)) \<subseteq> set (size_constraints (fst (size_power s)))"
  by (auto simp: size_power_def Let_def cvx_Variable_def drop_charge_limit_frame
        drop_discharge_limit_frame)

lemma size_power_log:
  "set (e_logger (snd s)) \<subseteq> set (e_logger (snd (size_power s)))"
proof -
  have c: "set (e_logger (snd t)) \<subseteq> set (e_logger (snd (drop_charge_limit t)))" for t
    using drop_limit_log(1) [of t] by auto
  have d: "set (e_logger (snd t)) \<subseteq> set (e_logger (snd (drop_discharge_limit t)))" for t
    using drop_limit_log(2) [of t] by auto
  have c1: "set (e_logger e) \<subseteq> set (e_logger (snd (drop_charge_limit (x, e\<lparr>next_id := k\<rparr>))))"
    for x e k
    using c [of "(x, e\<lparr>next_id := k\<rparr>)"] by simp
  have d1: "set (e_logger e) \<subseteq> set (e_logger (snd (drop_discharge_limit (x, e\<lparr>next_id := k\<rparr>))))"
    for x e k
    using d [of "(x, e\<lparr>next_id := k\<rparr>)"] by simp
  have cd1: "set (e_logger e)
      \<subseteq> set (e_logger (snd (drop_discharge_limit (drop_charge_limit (x, e\<lparr>next_id := k\<rparr>)))))"
    for x e k
    using c1 [of e x k] d [of "drop_charge_limit (x, e\<lparr>next_id := k\<rparr>)"] by blast
  show ?thesis
    unfolding size_power_def Let_def cvx_Variable_def
    by (simp add: c1 d1 cd1 del: subset_iff)
qed

lemma size_energy_zero:
  assumes "ene_max_rated self0 = Num 0"
  shows "size_energy (self0, e0) =
           drop_energy_limit
             (self0\<lparr>ene_max_rated := Var \<lparr>var_name = ''Energy_cap'', var_integer = True, var_id = next_id e0\<rparr>,
                     size_constraints := size_constraints self0 @
                        [NonPos (Neg (Var \<lparr>var_name = ''Energy_cap'', var_integer = True, var_id = next_id e0\<rparr>))],
                     effective_soe_min := Mul (Num (llsoc self0)) (Var \<lparr>var_name = ''Energy_cap'', var_integer = True, var_id = next_id e0\<rparr>),
                     effective_soe_max := Mul (Num (ulsoc self0)) (Var \<lparr>var_name = ''Energy_cap'', var_integer = True, var_id = next_id e0\<rparr>)\<rparr>,
              e0\<lparr>next_id := Suc (next_id e0)\<rparr>)"
  using assms by (simp add: size_energy_def cvx_Variable_def)

lemma drop_energy_limit_effect:
  "ene_max_rated (fst (drop_energy_limit s)) = ene_max_rated (fst s)
   \<and> effective_soe_min (fst (drop_energy_limit s)) = effective_soe_min (fst s)
   \<and> effective_soe_max (fst (drop_energy_limit s)) = effective_soe_max (fst s)
   \<and> llsoc (fst (drop_energy_limit s)) = llsoc (fst s)
   \<and> ulsoc (fst (drop_energy_limit s)) = ulsoc (fst s)
   \<and> size_constraints (fst (drop_energy_limit s)) = size_constraints (fst s)"
  by (simp add: drop_energy_limit_def Let_def log_error_def)

text \<open>The constructor on the sample batteries.\<close>

lemma init_charge_sized:
  "ESSSizing_init (ess_input 100 0 5) env0 =
     ((ess_input 100 0 5)
        \<lparr>ch_max_rated := Var \<lparr>var_name = ''charge_power_cap'', var_integer = True, var_id = 0\<rparr>,
         size_constraints :=
           [NonPos (Neg (Var \<lparr>var_name = ''charge_power_cap'', var_integer = True, var_id = 0\<rparr>))]\<rparr>,
      env0\<lparr>next_id := 1\<rparr>)"
  by (simp add: ESSSizing_init_def size_energy_def size_power_def cvx_Variable_def
        drop_charge_limit_def Let_def ess_input_def env0_def)

lemma init_discharge_sized:
  "ESSSizing_init (ess_input 100 10 0) env0 =
     ((ess_input 100 10 0)
        \<lparr>dis_max_rated := Var \<lparr>var_name = ''discharge_power_cap'', var_integer = True, var_id = 0\<rparr>,
         size_constraints :=
           [NonPos (Neg (Var \<lparr>var_name = ''discharge_power_cap'', var_integer = True, var_id = 0\<rparr>))]\<rparr>,
      env0\<lparr>next_id := 1\<rparr>)"
  by (simp add: ESSSizing_init_def size_energy_def size_power_def cvx_Variable_def
        drop_discharge_limit_def Let_def ess_input_def env0_def)

lemma init_nothing_sized:
  "ESSSizing_init (ess_input 100 10 10) env0 = (ess_input 100 10 10, env0)"
  by (simp add: ESSSizing_init_def size_energy_def size_power_def Let_def ess_input_def)

text \<open>
  C1. Before a solve, \<^verbatim>\<open>charge_capacity\<close> should return the charge rating and
  \<^verbatim>\<open>discharge_capacity\<close> the discharge rating. For a battery with charge rating 0 (so
  sized) and discharge rating 5, the constructor makes the charge rating the variable
  \<^verbatim>\<open>charge_power_cap\<close>, and \<^verbatim>\<open>charge_capacity(solution=False)\<close> returns the number 5,
  the discharge rating; \<^verbatim>\<open>discharge_capacity(solution=False)\<close> returns the discharge
  rating as it should.
\<close>

theorem charge_capacity_returns_discharge_rating:
  "ch_max_rated (fst (ESSSizing_init (ess_input 100 0 5) env0))
     = Var \<lparr>var_name = ''charge_power_cap'', var_integer = True, var_id = 0\<rparr>
   \<and> fst (charge_capacity False (ESSSizing_init (ess_input 100 0 5) env0)) = Object (Num 5)
   \<and> fst (charge_capacity False (ESSSizing_init (ess_input 100 0 5) env0))
       \<noteq> Object (ch_max_rated (fst (ESSSizing_init (ess_input 100 0 5) env0)))
   \<and> fst (discharge_capacity False (ESSSizing_init (ess_input 100 0 5) env0))
       = Object (dis_max_rated (fst (ESSSizing_init (ess_input 100 0 5) env0)))"
  unfolding init_charge_sized
  by (simp add: charge_capacity_def discharge_capacity_def ess_input_def)

text \<open>
  C7. For an ESS constructed with energy rating 0, the energy rating becomes the new
  integer variable \<^verbatim>\<open>Energy_cap\<close> with its non-negativity constraint, and the
  operational state-of-energy bounds become the lower and upper SOC fractions times that
  variable. A time series limit on the energy that is configured (included and present) is
  set to \<^verbatim>\<open>None\<close> and a message is sent to the error logger; otherwise the limit
  stays as it is. \<^verbatim>\<open>operational_min_energy\<close> and \<^verbatim>\<open>operational_max_energy\<close> return
  fraction times energy rating: before a solve as the expression, after a solve as the
  fraction times the solved energy capacity.
\<close>

theorem energy_sizing_soe_bounds:
  assumes "ene_max_rated self0 = Num 0"
  shows "let self = fst (ESSSizing_init self0 e0); e = snd (ESSSizing_init self0 e0);
             v = \<lparr>var_name = ''Energy_cap'', var_integer = True, var_id = next_id e0\<rparr>
         in ene_max_rated self = Var v
          \<and> effective_soe_min self = Mul (Num (llsoc self)) (Var v)
          \<and> effective_soe_max self = Mul (Num (ulsoc self)) (Var v)
          \<and> llsoc self = llsoc self0 \<and> ulsoc self = ulsoc self0
          \<and> NonPos (Neg (Var v)) \<in> set (size_constraints self)
          \<and> (if incl_energy_limits self0 \<and> limit_energy_max self0 \<noteq> None
              then limit_energy_max self = None
                 \<and> ignoring_msg ''energy'' self0 ''energy'' \<in> set (e_logger e)
              else limit_energy_max self = limit_energy_max self0)
          \<and> fst (operational_min_energy False (self, e)) = Object (Mul (Num (llsoc self)) (ene_max_rated self))
          \<and> fst (operational_max_energy False (self, e)) = Object (Mul (Num (ulsoc self)) (ene_max_rated self))
          \<and> (\<forall>e1 x. var_value e1 (next_id e0) = Some x \<longrightarrow>
                fst (energy_capacity True (self, e1)) = Object (Num x)
              \<and> fst (operational_min_energy True (self, e1)) = Object (Num (llsoc self * x))
              \<and> fst (operational_max_energy True (self, e1)) = Object (Num (ulsoc self * x)))"
proof -
  define v where "v = \<lparr>var_name = ''Energy_cap'', var_integer = True, var_id = next_id e0\<rparr>"
  define s1 where "s1 = size_energy (self0, e0)"
  define self where "self = fst (ESSSizing_init self0 e0)"
  define e where "e = snd (ESSSizing_init self0 e0)"
  have init: "ESSSizing_init self0 e0 = size_power s1"
    by (simp add: ESSSizing_init_def s1_def)
  note se = size_energy_zero [OF assms, of e0, folded v_def s1_def]
  have ene1: "ene_max_rated (fst s1) = Var v"
    and min1: "effective_soe_min (fst s1) = Mul (Num (llsoc self0)) (Var v)"
    and max1: "effective_soe_max (fst s1) = Mul (Num (ulsoc self0)) (Var v)"
    and ll1: "llsoc (fst s1) = llsoc self0" and ul1: "ulsoc (fst s1) = ulsoc self0"
    and sc1: "NonPos (Neg (Var v)) \<in> set (size_constraints (fst s1))"
    by (simp_all add: se drop_energy_limit_effect)
  have lim1: "if incl_energy_limits self0 \<and> limit_energy_max self0 \<noteq> None
              then limit_energy_max (fst s1) = None
                 \<and> ignoring_msg ''energy'' self0 ''energy'' \<in> set (e_logger (snd s1))
              else limit_energy_max (fst s1) = limit_energy_max self0"
    by (simp add: se drop_energy_limit_def Let_def log_error_def ignoring_msg_def)
  have ene: "ene_max_rated self = Var v"
    and mn: "effective_soe_min self = Mul (Num (llsoc self)) (Var v)"
    and mx: "effective_soe_max self = Mul (Num (ulsoc self)) (Var v)"
    and ll: "llsoc self = llsoc self0" and ul: "ulsoc self = ulsoc self0"
    using ene1 min1 max1 ll1 ul1 by (simp_all add: self_def init size_power_frame)
  have sc: "NonPos (Neg (Var v)) \<in> set (size_constraints self)"
    using size_power_grows [of s1] sc1 by (auto simp: self_def init)
  have lm: "if incl_energy_limits self0 \<and> limit_energy_max self0 \<noteq> None
              then limit_energy_max self = None
                 \<and> ignoring_msg ''energy'' self0 ''energy'' \<in> set (e_logger e)
              else limit_energy_max self = limit_energy_max self0"
    using size_power_log [of s1] lim1
    by (auto simp: self_def e_def init size_power_frame split: if_splits)
  have acc0: "fst (operational_min_energy False (self, e)) = Object (Mul (Num (llsoc self)) (ene_max_rated self))"
     "fst (operational_max_energy False (self, e)) = Object (Mul (Num (ulsoc self)) (ene_max_rated self))"
    by (simp_all add: operational_min_energy_def operational_max_energy_def mn mx ene)
  have acc1: "\<forall>e1 x. var_value e1 (next_id e0) = Some x \<longrightarrow>
                fst (energy_capacity True (self, e1)) = Object (Num x)
              \<and> fst (operational_min_energy True (self, e1)) = Object (Num (llsoc self * x))
              \<and> fst (operational_max_energy True (self, e1)) = Object (Num (ulsoc self * x))"
    by (simp add: operational_min_energy_def operational_max_energy_def energy_capacity_def
          resolve_def dot_value_def mn mx ene v_def)
  show ?thesis
    unfolding Let_def self_def [symmetric] e_def [symmetric] v_def [symmetric]
    using ene mn mx ll ul sc lm acc0 acc1 by simp
qed

theorem energy_sizing_soe_bounds_witness:
  "ene_max_rated (ess_input 0 10 5) = Num 0
   \<and> effective_soe_min (fst (ESSSizing_init (ess_input 0 10 5) env0))
       = Mul (Num (1 / 10)) (Var \<lparr>var_name = ''Energy_cap'', var_integer = True, var_id = 0\<rparr>)
   \<and> effective_soe_max (fst (ESSSizing_init (ess_input 0 10 5) env0))
       = Mul (Num (9 / 10)) (Var \<lparr>var_name = ''Energy_cap'', var_integer = True, var_id = 0\<rparr>)
   \<and> limit_energy_max (ess_input 0 10 5) = Some [50, 60]
   \<and> limit_energy_max (fst (ESSSizing_init (ess_input 0 10 5) env0)) = None
   \<and> fst (operational_max_energy True
            (solve_with (\<lambda>i. if i = 0 then Some 200 else None) (ESSSizing_init (ess_input 0 10 5) env0)))
       = Object (Num 180)"
proof -
  have h: "ene_max_rated (ess_input 0 10 5) = Num 0"
    by (simp add: ess_input_def)
  have v: "var_value (env0\<lparr>var_value := \<lambda>i. if i = 0 then Some 200 else None\<rparr>) (next_id env0) = Some 200"
    by (simp add: env0_def)
  show ?thesis
    using h v energy_sizing_soe_bounds [OF h, of env0]
    by (simp add: Let_def ess_input_def env0_def solve_with_def)
qed

text \<open>
  C8. Resolving a rating after a solve changes nothing and can be repeated:
  \<^verbatim>\<open>energy_capacity\<close>, \<^verbatim>\<open>discharge_capacity\<close> and \<^verbatim>\<open>charge_capacity\<close> with
  \<^verbatim>\<open>solution=True\<close> leave the object and its surroundings as they were, a second call
  returns what the first returned, a literal rating is returned as it is and a rating that
  is a decision variable is returned as the value the solve gave the variable.
\<close>

theorem resolve_idempotent:
  "snd (energy_capacity True s) = s
   \<and> energy_capacity True (snd (energy_capacity True s)) = energy_capacity True s
   \<and> snd (discharge_capacity True s) = s
   \<and> discharge_capacity True (snd (discharge_capacity True s)) = discharge_capacity True s
   \<and> snd (charge_capacity True s) = s
   \<and> charge_capacity True (snd (charge_capacity True s)) = charge_capacity True s
   \<and> (\<forall>c. ene_max_rated (fst s) = Num c \<longrightarrow> fst (energy_capacity True s) = Object (Num c))
   \<and> (\<forall>c. dis_max_rated (fst s) = Num c \<longrightarrow> fst (discharge_capacity True s) = Object (Num c))
   \<and> (\<forall>c. ch_max_rated (fst s) = Num c \<longrightarrow> fst (charge_capacity True s) = Object (Num c))
   \<and> (\<forall>v r. ene_max_rated (fst s) = Var v \<and> var_value (snd s) (var_id v) = Some r
         \<longrightarrow> fst (energy_capacity True s) = Object (Num r))
   \<and> (\<forall>v r. dis_max_rated (fst s) = Var v \<and> var_value (snd s) (var_id v) = Some r
         \<longrightarrow> fst (discharge_capacity True s) = Object (Num r))
   \<and> (\<forall>v r. ch_max_rated (fst s) = Var v \<and> var_value (snd s) (var_id v) = Some r
         \<longrightarrow> fst (charge_capacity True s) = Object (Num r))"
  by (simp add: energy_capacity_def discharge_capacity_def charge_capacity_def resolve_def
      dot_value_def)

theorem resolve_idempotent_witness:
  "ch_max_rated (fst (solve_with (\<lambda>i. if i = 0 then Some 20 else None)
                        (ESSSizing_init (ess_input 100 0 5) env0)))
     = Var \<lparr>var_name = ''charge_power_cap'', var_integer = True, var_id = 0\<rparr>
   \<and> fst (charge_capacity True (solve_with (\<lambda>i. if i = 0 then Some 20 else None)
                                  (ESSSizing_init (ess_input 100 0 5) env0))) = Object (Num 20)
   \<and> fst (charge_capacity True (snd (charge_capacity True
            (solve_with (\<lambda>i. if i = 0 then Some 20 else None)
               (ESSSizing_init (ess_input 100 0 5) env0))))) = Object (Num 20)
   \<and> dis_max_rated (fst (solve_with (\<lambda>i. if i = 0 then Some 20 else None)
                        (ESSSizing_init (ess_input 100 0 5) env0))) = Num 5
   \<and> fst (discharge_capacity True (solve_with (\<lambda>i. if i = 0 then Some 20 else None)
                                     (ESSSizing_init (ess_input 100 0 5) env0))) = Object (Num 5)"
proof -
  define s where "s = solve_with (\<lambda>i. if i = 0 then Some 20 else None)
                        (ESSSizing_init (ess_input 100 0 5) env0)"
  have ch: "ch_max_rated (fst s) = Var \<lparr>var_name = ''charge_power_cap'', var_integer = True, var_id = 0\<rparr>"
    and dis: "dis_max_rated (fst s) = Num 5"
    and val: "var_value (snd s) 0 = Some 20"
    unfolding s_def init_charge_sized by (simp_all add: solve_with_def ess_input_def)
  from resolve_idempotent [of s] ch dis val
  have "fst (charge_capacity True s) = Object (Num 20)
        \<and> fst (charge_capacity True (snd (charge_capacity True s))) = Object (Num 20)
        \<and> fst (discharge_capacity True s) = Object (Num 5)"
    by simp
  with ch dis show ?thesis
    unfolding s_def by simp
qed

text \<open>
  The constructor never leaves the number 0 as discharge rating: a zero discharge rating
  becomes a variable.
\<close>

lemma discharge_rating_not_literal_zero:
  "dis_max_rated (fst (ESSSizing_init self0 e0)) \<noteq> Num 0"
proof -
  have drop: "dis_max_rated (fst (drop_charge_limit t)) = dis_max_rated (fst t)"
             "dis_max_rated (fst (drop_discharge_limit t)) = dis_max_rated (fst t)" for t
    by (simp_all add: drop_charge_limit_def drop_discharge_limit_def Let_def)
  have "dis_max_rated (fst (size_power t)) \<noteq> Num 0" for t
    by (cases "dis_max_rated (fst t)")
       (simp_all add: size_power_def Let_def cvx_Variable_def drop)
  then show ?thesis
    by (simp add: ESSSizing_init_def)
qed

text \<open>
  C3. \<^verbatim>\<open>calculate_duration\<close> on a battery built with discharge rating 0, after a solve
  that gives the discharge variable the value 0: the divisor is a numpy zero, the division
  raises nothing, and the method returns numpy's non-finite result as the duration. No
  error is reported: the call returns normally and nothing is sent to a logger.
\<close>

theorem calculate_duration_zero_discharge:
  "dis_max_rated (fst (ESSSizing_init (ess_input 100 10 0) env0))
     = Var \<lparr>var_name = ''discharge_power_cap'', var_integer = True, var_id = 0\<rparr>
   \<and> fst (calculate_duration (solve_with (\<lambda>i. if i = 0 then Some 0 else None)
                              (ESSSizing_init (ess_input 100 10 0) env0)))
     = Nonfinite_with_RuntimeWarning
   \<and> e_logger (snd (snd (calculate_duration (solve_with (\<lambda>i. if i = 0 then Some 0 else None)
                              (ESSSizing_init (ess_input 100 10 0) env0))))) = []
   \<and> u_logger (snd (snd (calculate_duration (solve_with (\<lambda>i. if i = 0 then Some 0 else None)
                              (ESSSizing_init (ess_input 100 10 0) env0))))) = []"
  unfolding init_discharge_sized
  by (simp add: calculate_duration_def discharge_capacity_def resolve_def dot_value_def
        py_truediv_def is_numpy_def solve_with_def ess_input_def env0_def)

text \<open>
  C3, as the code has it. For a storage DER as its constructor builds it, in any later
  state of the variables: when the energy rating resolves to the number \<open>en\<close> and the
  discharge rating to the number \<open>d\<close>, \<^verbatim>\<open>calculate_duration\<close> returns \<open>en / d\<close> for
  \<open>d\<close> other than 0 (energy 100 and discharge 10 give 10). A discharge rating that
  resolves to 0 is the value of the discharge variable, a numpy number; the division then
  raises nothing and the method returns numpy's \<^verbatim>\<open>inf\<close> or \<^verbatim>\<open>nan\<close>, with numpy's
  \<^verbatim>\<open>RuntimeWarning\<close> as the only signal. In both cases the object, the variables and
  the loggers are left as they were.
\<close>

theorem calculate_duration_divides:
  assumes "resolve (ene_max_rated (fst (ESSSizing_init self0 e0))) e1 = Object (Num en)"
      and "resolve (dis_max_rated (fst (ESSSizing_init self0 e0))) e1 = Object (Num d)"
  shows "calculate_duration (fst (ESSSizing_init self0 e0), e1) =
           (if d = 0 then Nonfinite_with_RuntimeWarning else Quotient (en / d),
            (fst (ESSSizing_init self0 e0), e1))"
proof (cases "d = 0")
  case False
  with assms show ?thesis
    by (simp add: calculate_duration_def discharge_capacity_def py_truediv_def)
next
  case True
  have "is_numpy (dis_max_rated (fst (ESSSizing_init self0 e0)))"
  proof (cases "dis_max_rated (fst (ESSSizing_init self0 e0))")
    case (Num c)
    with assms(2) True have "c = 0"
      by (simp add: resolve_def dot_value_def)
    with Num discharge_rating_not_literal_zero [of self0 e0] show ?thesis
      by simp
  qed (simp_all add: is_numpy_def)
  with assms True show ?thesis
    by (simp add: calculate_duration_def discharge_capacity_def py_truediv_def)
qed

theorem calculate_duration_divides_witness:
  "resolve (ene_max_rated (fst (ESSSizing_init (ess_input 100 10 10) env0))) env0 = Object (Num 100)
   \<and> resolve (dis_max_rated (fst (ESSSizing_init (ess_input 100 10 10) env0))) env0 = Object (Num 10)
   \<and> calculate_duration (fst (ESSSizing_init (ess_input 100 10 10) env0), env0)
       = (Quotient 10, (fst (ESSSizing_init (ess_input 100 10 10) env0), env0))
   \<and> resolve (dis_max_rated (fst (ESSSizing_init (ess_input 100 10 0) env0)))
        (env0\<lparr>var_value := (\<lambda>i. if i = 0 then Some 0 else None)\<rparr>) = Object (Num 0)
   \<and> calculate_duration (fst (ESSSizing_init (ess_input 100 10 0) env0),
                           env0\<lparr>var_value := (\<lambda>i. if i = 0 then Some 0 else None)\<rparr>)
       = (Nonfinite_with_RuntimeWarning,
          (fst (ESSSizing_init (ess_input 100 10 0) env0),
           env0\<lparr>var_value := (\<lambda>i. if i = 0 then Some 0 else None)\<rparr>))"
proof -
  have a: "resolve (ene_max_rated (fst (ESSSizing_init (ess_input 100 10 10) env0))) env0
             = Object (Num 100)"
    unfolding init_nothing_sized by (simp add: resolve_def dot_value_def ess_input_def)
  have b: "resolve (dis_max_rated (fst (ESSSizing_init (ess_input 100 10 10) env0))) env0
             = Object (Num 10)"
    unfolding init_nothing_sized by (simp add: resolve_def dot_value_def ess_input_def)
  have c: "resolve (ene_max_rated (fst (ESSSizing_init (ess_input 100 10 0) env0)))
             (env0\<lparr>var_value := (\<lambda>i. if i = 0 then Some 0 else None)\<rparr>) = Object (Num 100)"
    unfolding init_discharge_sized by (simp add: resolve_def dot_value_def ess_input_def)
  have d: "resolve (dis_max_rated (fst (ESSSizing_init (ess_input 100 10 0) env0)))
             (env0\<lparr>var_value := (\<lambda>i. if i = 0 then Some 0 else None)\<rparr>) = Object (Num 0)"
    unfolding init_discharge_sized by (simp add: resolve_def dot_value_def ess_input_def)
  from calculate_duration_divides [OF a b] calculate_duration_divides [OF c d] a b d
  show ?thesis
    by simp
qed

section \<open>Properties of DieselSizing\<close>

text \<open>
  C4. The capital cost expression of a sized generator should be the fixed capital cost
  times the unit count plus the capital cost per kW times the rated power of a unit. For a
  generator with fixed cost 100, 7 per kW and 10 kW, the constructor builds
  \<open>100 * n + 1000\<close>: the fixed cost, not the cost per kW, multiplies the rated power.
  With two units the expression is worth 1200, where the claim gives 270.
\<close>

theorem diesel_capex_uses_fixed_cost_twice:
  "capex (fst (DieselSizing_init diesel_input 1 4 env0))
     = Add (Mul (Num 100) (Var \<lparr>var_name = ''generators'', var_integer = True, var_id = 0\<rparr>))
           (Num 1000)
   \<and> value_of (\<lambda>i. if i = 0 then Some 2 else None)
        (capex (fst (DieselSizing_init diesel_input 1 4 env0))) = Some 1200
   \<and> capital_cost diesel_input * 2 + ccost_kw diesel_input * p_max diesel_input = 270"
  by (simp add: DieselSizing_init_def cvx_Variable_def diesel_input_def env0_def)

section \<open>Properties of MicrogridScenario\<close>

lemma upt_split_at: "i < m \<Longrightarrow> [0..<m] = [0..<i] @ i # [Suc i..<m]"
proof -
  assume lt: "i < m"
  have "[0..<i + (m - i)] = [0..<i] @ [i..<i + (m - i)]"
    by (rule upt_add_eq_append) simp
  moreover have "i + (m - i) = m" using lt by simp
  moreover have "[i..<m] = i # [Suc i..<m]" using lt by (simp add: upt_conv_Cons)
  ultimately show ?thesis by simp
qed

lemma nth_in_take: "j < i \<Longrightarrow> i < length xs \<Longrightarrow> xs ! j \<in> set (take i xs)"
proof -
  assume a: "j < i" "i < length xs"
  then have "j < length (take i xs)" by simp
  then have "take i xs ! j \<in> set (take i xs)" by (rule nth_mem)
  with a show ?thesis by simp
qed

lemma first_occurrence_exists:
  assumes "x \<in> set xs"
  shows "\<exists>i < length xs. xs ! i = x \<and> xs ! i \<notin> set (take i xs)"
proof -
  define P where "P = (\<lambda>i. i < length xs \<and> xs ! i = x)"
  from assms have ex: "\<exists>i. P i" by (auto simp: P_def in_set_conv_nth)
  define i where "i = (LEAST i. P i)"
  have Pi: "P i" unfolding i_def using ex by (auto intro: LeastI)
  have "x \<notin> set (take i xs)"
  proof
    assume "x \<in> set (take i xs)"
    then obtain j where j: "j < length (take i xs)" "take i xs ! j = x"
      by (auto simp: in_set_conv_nth)
    then have "j < i" "P j" using Pi by (auto simp: P_def)
    then show False unfolding i_def using not_less_Least by blast
  qed
  with Pi show ?thesis by (auto simp: P_def)
qed

lemma first_occurrence_hd:
  assumes "i < length xs" and "xs ! i \<notin> set (take i xs)"
  shows "hd (filter (\<lambda>j. xs ! j = xs ! i) [0..<length xs]) = i"
proof -
  have "\<forall>j \<in> set [0..<i]. xs ! j \<noteq> xs ! i"
  proof
    fix j assume "j \<in> set [0..<i]"
    then have "xs ! j \<in> set (take i xs)"
      using assms(1) by (simp add: nth_in_take)
    with assms(2) show "xs ! j \<noteq> xs ! i" by metis
  qed
  then have "filter (\<lambda>j. xs ! j = xs ! i) [0..<i] = []"
    by (simp add: filter_empty_conv)
  then show ?thesis
    by (subst upt_split_at [OF assms(1)]) simp
qed

lemma unique_first_steps:
  "map (\<lambda>p. hd (sub_index_of levels p)) (unique levels)
     = filter (\<lambda>i. levels ! i \<notin> set (take i levels)) [0..<length levels]"
proof -
  have "map (\<lambda>i. hd (sub_index_of levels (levels ! i)))
          (filter (\<lambda>i. levels ! i \<notin> set (take i levels)) [0..<length levels])
        = filter (\<lambda>i. levels ! i \<notin> set (take i levels)) [0..<length levels]"
    by (rule map_idI) (simp add: sub_index_of_def first_occurrence_hd)
  then show ?thesis
    by (simp add: unique_def comp_def)
qed

lemma unique_increasing:
  "sorted_wrt (<) (map (\<lambda>p. hd (sub_index_of levels p)) (unique levels))"
  unfolding unique_first_steps by (rule sorted_wrt_filter) (rule sorted_wrt_upt)

lemma unique_set: "set (unique xs) = set xs"
proof
  show "set (unique xs) \<subseteq> set xs"
    by (auto simp: unique_def)
  show "set xs \<subseteq> set (unique xs)"
  proof
    fix x assume "x \<in> set xs"
    from first_occurrence_exists [OF this]
    obtain i where "i < length xs" "xs ! i = x" "xs ! i \<notin> set (take i xs)" by blast
    then show "x \<in> set (unique xs)"
      by (auto simp: unique_def intro!: image_eqI [where x = i])
  qed
qed

lemma unique_distinct: "distinct (unique xs)"
proof -
  have "inj_on (\<lambda>i. xs ! i) {i. i < length xs \<and> xs ! i \<notin> set (take i xs)}"
  proof (rule inj_onI)
    fix i j
    assume i: "i \<in> {i. i < length xs \<and> xs ! i \<notin> set (take i xs)}"
       and j: "j \<in> {i. i < length xs \<and> xs ! i \<notin> set (take i xs)}"
       and eq: "xs ! i = xs ! j"
    show "i = j"
    proof (rule ccontr)
      assume "i \<noteq> j"
      then consider "i < j" | "j < i" by linarith
      then show False
      proof cases
        case 1
        with j nth_in_take [of i j xs] eq show False by auto
      next
        case 2
        with i nth_in_take [of j i xs] eq show False by auto
      qed
    qed
  qed
  then show ?thesis
    unfolding unique_def by (simp add: distinct_map)
qed


lemma for_each_length: "length (fst (for_each f i xs)) = length xs"
  by (induction xs arbitrary: i) (simp_all add: Let_def case_prod_beta)

lemma for_each_types:
  assumes "\<And>j x. technology_type (fst (f j x)) = technology_type x"
  shows "map technology_type (fst (for_each f i xs)) = map technology_type xs"
  using assms by (induction xs arbitrary: i) (simp_all add: Let_def case_prod_beta)

lemma for_each_ess_calls:
  "snd (for_each (\<lambda>j d. if technology_type d = ESS_type then (g d, [E j]) else (d, [])) i xs)
     = map E (map fst (filter (\<lambda>it. snd it = ESS_type) (enumerate i (map technology_type xs))))"
  by (induction xs arbitrary: i) (simp_all add: Let_def case_prod_beta)

lemma for_each_all_calls:
  "snd (for_each (\<lambda>j x. (g x, [E j])) i xs) = map E [i..<i + length xs]"
proof (induction xs arbitrary: i)
  case Nil
  then show ?case by simp
next
  case (Cons x xs)
  have "[i..<i + length (x # xs)] = i # [Suc i..<Suc i + length xs]"
    by (simp add: upt_rec)
  then show ?case
    by (simp add: Let_def case_prod_beta Cons.IH)
qed

lemma apply_degradation_phase_effect:
  "calls (apply_degradation_phase X p s)
     = calls s @ map (\<lambda>i. Apply_past_degredation i p) (ess_positions (map technology_type (der_list s)))"
  "map technology_type (der_list (apply_degradation_phase X p s)) = map technology_type (der_list s)"
  "value_streams (apply_degradation_phase X p s) = value_streams s"
  "optimization_levels (apply_degradation_phase X p s) = optimization_levels s"
  "objective_values (apply_degradation_phase X p s) = objective_values s"
  by (simp_all add: apply_degradation_phase_def case_prod_beta for_each_ess_calls
        for_each_types ess_positions_def)

lemma solve_phase_effect:
  "calls (snd (solve_phase X r a p s)) = calls s @ [Run_optimization p]"
  "map technology_type (der_list (snd (solve_phase X r a p s))) = map technology_type (der_list s)"
  "length (value_streams (snd (solve_phase X r a p s))) = length (value_streams s)"
  "optimization_levels (snd (solve_phase X r a p s)) = optimization_levels s"
  "objective_values (snd (solve_phase X r a p s)) = objective_values s"
  by (simp_all add: solve_phase_def case_prod_beta Let_def for_each_types for_each_length)

lemma calc_degradation_phase_effect:
  "calls (calc_degradation_phase X p s)
     = calls s @ map (\<lambda>i. Calc_degradation i p (hd (sub_index_of (optimization_levels s) p))
                                             (last (sub_index_of (optimization_levels s) p)))
                   (ess_positions (map technology_type (der_list s)))"
  "map technology_type (der_list (calc_degradation_phase X p s)) = map technology_type (der_list s)"
  "value_streams (calc_degradation_phase X p s) = value_streams s"
  "optimization_levels (calc_degradation_phase X p s) = optimization_levels s"
  "objective_values (calc_degradation_phase X p s) = objective_values s"
  by (simp_all add: calc_degradation_phase_def case_prod_beta Let_def for_each_ess_calls
        for_each_types ess_positions_def)

lemma concat_phase_effect:
  "calls (concat_phase p obj s) = calls s @ [Concat_objective_values p]"
  "der_list (concat_phase p obj s) = der_list s"
  "value_streams (concat_phase p obj s) = value_streams s"
  "optimization_levels (concat_phase p obj s) = optimization_levels s"
  "objective_values (concat_phase p obj s) = objective_values s @ [obj]"
  by (simp_all add: concat_phase_def)

lemma save_phase_effect:
  "calls (save_phase X p s)
     = calls s @ map (\<lambda>i. Der_save_variable_results i (sub_index_of (optimization_levels s) p))
                   [0..<length (der_list s)]
               @ map (\<lambda>i. Vs_save_variable_results i (sub_index_of (optimization_levels s) p))
                   [0..<length (value_streams s)]"
  "map technology_type (der_list (save_phase X p s)) = map technology_type (der_list s)"
  "length (value_streams (save_phase X p s)) = length (value_streams s)"
  "optimization_levels (save_phase X p s) = optimization_levels s"
  "objective_values (save_phase X p s) = objective_values s"
  by (simp_all add: save_phase_def case_prod_beta Let_def for_each_all_calls
        for_each_types for_each_length)

lemma optimize_window_effect:
  "calls (optimize_window X r a p s)
     = calls s @ window_calls (map technology_type (der_list s)) (length (value_streams s))
                   (optimization_levels s) p"
  "map technology_type (der_list (optimize_window X r a p s)) = map technology_type (der_list s)"
  "length (value_streams (optimize_window X r a p s)) = length (value_streams s)"
  "optimization_levels (optimize_window X r a p s) = optimization_levels s"
  "length (objective_values (optimize_window X r a p s)) = Suc (length (objective_values s))"
proof -
  define s1 where "s1 = apply_degradation_phase X p s"
  define s2 where "s2 = snd (solve_phase X r a p s1)"
  define obj where "obj = fst (solve_phase X r a p s1)"
  define s3 where "s3 = calc_degradation_phase X p s2"
  define s4 where "s4 = concat_phase p obj s3"
  have w: "optimize_window X r a p s = save_phase X p s4"
    by (simp add: optimize_window_def Let_def case_prod_beta s1_def s2_def s3_def s4_def obj_def)
  have ty: "map technology_type (der_list s4) = map technology_type (der_list s)"
    by (simp add: s4_def s3_def s2_def s1_def concat_phase_effect calc_degradation_phase_effect
          solve_phase_effect apply_degradation_phase_effect)
  have nv: "length (value_streams s4) = length (value_streams s)"
    by (simp add: s4_def s3_def s2_def s1_def concat_phase_effect calc_degradation_phase_effect
          solve_phase_effect apply_degradation_phase_effect)
  have lv: "optimization_levels s4 = optimization_levels s"
    by (simp add: s4_def s3_def s2_def s1_def concat_phase_effect calc_degradation_phase_effect
          solve_phase_effect apply_degradation_phase_effect)
  have ld: "length (der_list s4) = length (der_list s)"
    using ty by (metis length_map)
  have ov: "objective_values s4 = objective_values s @ [obj]"
    by (simp add: s4_def s3_def s2_def s1_def concat_phase_effect calc_degradation_phase_effect
          solve_phase_effect apply_degradation_phase_effect)
  have c4: "calls s4 = calls s
      @ map (\<lambda>i. Apply_past_degredation i p) (ess_positions (map technology_type (der_list s)))
      @ [Run_optimization p]
      @ map (\<lambda>i. Calc_degradation i p (hd (sub_index_of (optimization_levels s) p))
                                       (last (sub_index_of (optimization_levels s) p)))
            (ess_positions (map technology_type (der_list s)))
      @ [Concat_objective_values p]"
    by (simp add: s4_def s3_def s2_def s1_def concat_phase_effect calc_degradation_phase_effect
          solve_phase_effect apply_degradation_phase_effect)
  show "calls (optimize_window X r a p s)
     = calls s @ window_calls (map technology_type (der_list s)) (length (value_streams s))
                   (optimization_levels s) p"
    by (simp add: w save_phase_effect c4 lv ld nv window_calls_def Let_def)
  show "map technology_type (der_list (optimize_window X r a p s)) = map technology_type (der_list s)"
    by (simp add: w save_phase_effect ty)
  show "length (value_streams (optimize_window X r a p s)) = length (value_streams s)"
    by (simp add: w save_phase_effect nv)
  show "optimization_levels (optimize_window X r a p s) = optimization_levels s"
    by (simp add: w save_phase_effect lv)
  show "length (objective_values (optimize_window X r a p s)) = Suc (length (objective_values s))"
    by (simp add: w save_phase_effect ov)
qed

lemma for_each_fst:
  "fst (for_each f i xs) = map (\<lambda>jx. fst (f (fst jx) (snd jx))) (enumerate i xs)"
  by (induction xs arbitrary: i) (simp_all add: Let_def case_prod_beta)

lemma for_each_fst_map:
  assumes "\<And>j x. fst (f j x) = g x"
  shows "fst (for_each f i xs) = map g xs"
  using assms by (induction xs arbitrary: i) (simp_all add: Let_def case_prod_beta)

lemma apply_degradation_phase_fleet:
  "der_list (apply_degradation_phase X p s)
     = map (\<lambda>d. if technology_type d = ESS_type
                 then d\<lparr>body := apply_past_degredation X p (body d)\<rparr> else d) (der_list s)"
  unfolding apply_degradation_phase_def
  by (simp add: case_prod_beta) (rule for_each_fst_map, simp)

lemma solve_phase_fleet:
  "der_list (snd (solve_phase X r a p s))
     = map (\<lambda>id. (snd id)\<lparr>body := fst (snd (run_optimization X (map (\<lambda>q. q = p) (optimization_levels s)) r a
                              (post_facto_reliability_only X (value_streams s)) p (der_list s) (value_streams s)))
                              (fst id)\<rparr>)
         (enumerate 0 (der_list s))"
  by (simp add: solve_phase_def Let_def case_prod_beta for_each_fst)

lemma calc_degradation_phase_fleet:
  "der_list (calc_degradation_phase X p s)
     = map (\<lambda>d. if technology_type d = ESS_type
                 then d\<lparr>body := calc_degradation X p (hd (sub_index_of (optimization_levels s) p))
                                    (last (sub_index_of (optimization_levels s) p)) (body d)\<rparr>
                 else d) (der_list s)"
  unfolding calc_degradation_phase_def Let_def
  by (simp add: case_prod_beta) (rule for_each_fst_map, simp)

lemma save_phase_fleet:
  "der_list (save_phase X p s)
     = map (\<lambda>d. d\<lparr>body := der_save_variable_results X (sub_index_of (optimization_levels s) p) (body d)\<rparr>)
         (der_list s)"
  unfolding save_phase_def Let_def
  by (simp add: case_prod_beta) (rule for_each_fst_map, simp)

lemma optimize_window_fleet:
  "der_list (optimize_window X r a p s) = fleet_after_window X r a p s"
proof -
  define s1 where "s1 = apply_degradation_phase X p s"
  define s2 where "s2 = snd (solve_phase X r a p s1)"
  define obj where "obj = fst (solve_phase X r a p s1)"
  define s3 where "s3 = calc_degradation_phase X p s2"
  define s4 where "s4 = concat_phase p obj s3"
  have w: "optimize_window X r a p s = save_phase X p s4"
    by (simp add: optimize_window_def Let_def case_prod_beta s1_def s2_def s3_def s4_def obj_def)
  have lv: "optimization_levels s1 = optimization_levels s"
       "optimization_levels s2 = optimization_levels s"
       "optimization_levels s3 = optimization_levels s"
       "optimization_levels s4 = optimization_levels s"
    by (simp_all add: s4_def s3_def s2_def s1_def concat_phase_effect calc_degradation_phase_effect
          solve_phase_effect apply_degradation_phase_effect)
  have vs: "value_streams s1 = value_streams s"
    by (simp add: s1_def apply_degradation_phase_effect)
  show ?thesis
    unfolding fleet_after_window_def
    unfolding w save_phase_fleet s4_def concat_phase_effect s3_def calc_degradation_phase_fleet
      s2_def solve_phase_fleet Let_def
    unfolding s2_def [symmetric] s3_def [symmetric] s4_def [symmetric] lv vs
    unfolding s1_def apply_degradation_phase_fleet
    by (simp add: comp_def)
qed

lemma fold_optimize_window:
  "calls (fold (optimize_window X r a) ps s)
     = calls s @ concat (map (window_calls (map technology_type (der_list s))
                                (length (value_streams s)) (optimization_levels s)) ps)
   \<and> map technology_type (der_list (fold (optimize_window X r a) ps s)) = map technology_type (der_list s)
   \<and> length (value_streams (fold (optimize_window X r a) ps s)) = length (value_streams s)
   \<and> optimization_levels (fold (optimize_window X r a) ps s) = optimization_levels s
   \<and> length (objective_values (fold (optimize_window X r a) ps s))
       = length (objective_values s) + length ps"
proof (induction ps arbitrary: s)
  case Nil
  then show ?case by simp
next
  case (Cons p ps)
  show ?case
    using Cons.IH [of "optimize_window X r a p s"]
    by (simp add: optimize_window_effect)
qed


lemma apply_degradation_phase_rest:
  "is_sizing_optimization (apply_degradation_phase X p s) = is_sizing_optimization s"
  "incl_binary (apply_degradation_phase X p s) = incl_binary s"
  "scenario.more (apply_degradation_phase X p s) = scenario.more s"
  by (simp_all add: apply_degradation_phase_def case_prod_beta)

lemma solve_phase_rest:
  "is_sizing_optimization (snd (solve_phase X r a p s)) = is_sizing_optimization s"
  "incl_binary (snd (solve_phase X r a p s)) = incl_binary s"
  "scenario.more (snd (solve_phase X r a p s)) = scenario.more s"
  "fst (solve_phase X r a p s)
     = fst (run_optimization X (map (\<lambda>q. q = p) (optimization_levels s)) r a
              (post_facto_reliability_only X (value_streams s)) p (der_list s) (value_streams s))"
  "value_streams (snd (solve_phase X r a p s))
     = map (\<lambda>ikv. (fst (snd ikv),
                     snd (snd (run_optimization X (map (\<lambda>q. q = p) (optimization_levels s)) r a
                                 (post_facto_reliability_only X (value_streams s)) p (der_list s)
                                 (value_streams s))) (fst ikv)))
         (enumerate 0 (value_streams s))"
  by (simp_all add: solve_phase_def Let_def case_prod_beta for_each_fst)

lemma calc_degradation_phase_rest:
  "is_sizing_optimization (calc_degradation_phase X p s) = is_sizing_optimization s"
  "incl_binary (calc_degradation_phase X p s) = incl_binary s"
  "scenario.more (calc_degradation_phase X p s) = scenario.more s"
  by (simp_all add: calc_degradation_phase_def Let_def case_prod_beta)

lemma concat_phase_rest:
  "is_sizing_optimization (concat_phase p obj s) = is_sizing_optimization s"
  "incl_binary (concat_phase p obj s) = incl_binary s"
  "scenario.more (concat_phase p obj s) = scenario.more s"
  by (simp_all add: concat_phase_def)

lemma save_phase_rest:
  "is_sizing_optimization (save_phase X p s) = is_sizing_optimization s"
  "incl_binary (save_phase X p s) = incl_binary s"
  "scenario.more (save_phase X p s) = scenario.more s"
  "value_streams (save_phase X p s)
     = map (\<lambda>kv. (fst kv, vs_save_variable_results X (sub_index_of (optimization_levels s) p) (snd kv)))
         (value_streams s)"
  unfolding save_phase_def Let_def
  by (simp_all add: case_prod_beta) (rule for_each_fst_map, simp)

lemma optimize_window_closed_form:
  "optimize_window X r a p s = scenario_after_window X r a p s"
proof -
  define s1 where "s1 = apply_degradation_phase X p s"
  define s2 where "s2 = snd (solve_phase X r a p s1)"
  define obj where "obj = fst (solve_phase X r a p s1)"
  define s3 where "s3 = calc_degradation_phase X p s2"
  define s4 where "s4 = concat_phase p obj s3"
  have w: "optimize_window X r a p s = save_phase X p s4"
    by (simp add: optimize_window_def Let_def case_prod_beta s1_def s2_def s3_def s4_def obj_def)
  have d1: "der_list s1 = fleet_before_solve X p s"
    by (simp add: s1_def apply_degradation_phase_fleet fleet_before_solve_def)
  have l1: "optimization_levels s1 = optimization_levels s" and v1: "value_streams s1 = value_streams s"
    by (simp_all add: s1_def apply_degradation_phase_effect)
  have l4: "optimization_levels s4 = optimization_levels s"
    by (simp add: s4_def s3_def s2_def l1 concat_phase_effect calc_degradation_phase_effect
          solve_phase_effect)
  have obj: "obj = objective_of_window X r a p s"
    by (simp add: obj_def solve_phase_rest d1 l1 v1 objective_of_window_def window_solution_def)
  have v4: "value_streams s4
      = map (\<lambda>ikv. (fst (snd ikv), snd (snd (window_solution X r a p s)) (fst ikv)))
          (enumerate 0 (value_streams s))"
    by (simp add: s4_def s3_def s2_def concat_phase_effect calc_degradation_phase_effect
          solve_phase_rest d1 l1 v1 window_solution_def)
  have o4: "objective_values s4 = objective_values s @ [objective_of_window X r a p s]"
    by (simp add: s4_def s3_def s2_def s1_def obj [symmetric] concat_phase_effect
          calc_degradation_phase_effect solve_phase_effect apply_degradation_phase_effect)
  have rest: "is_sizing_optimization s4 = is_sizing_optimization s"
             "incl_binary s4 = incl_binary s" "scenario.more s4 = scenario.more s"
    by (simp_all add: s4_def s3_def s2_def s1_def concat_phase_rest calc_degradation_phase_rest
          solve_phase_rest apply_degradation_phase_rest)
  show ?thesis
  proof (rule scenario.equality)
    show "der_list (optimize_window X r a p s) = der_list (scenario_after_window X r a p s)"
      by (simp add: optimize_window_fleet scenario_after_window_def)
    show "calls (optimize_window X r a p s) = calls (scenario_after_window X r a p s)"
      by (simp add: optimize_window_effect scenario_after_window_def)
    show "optimization_levels (optimize_window X r a p s)
            = optimization_levels (scenario_after_window X r a p s)"
      by (simp add: optimize_window_effect scenario_after_window_def)
    show "value_streams (optimize_window X r a p s) = value_streams (scenario_after_window X r a p s)"
      by (simp add: w save_phase_rest v4 l4 scenario_after_window_def services_after_window_def
            Let_def comp_def)
    show "objective_values (optimize_window X r a p s)
            = objective_values (scenario_after_window X r a p s)"
      by (simp add: w save_phase_effect o4 scenario_after_window_def)
  qed (simp_all add: w save_phase_rest rest scenario_after_window_def)
qed

lemma fold_objective_values:
  assumes "\<And>p t. objective_values (W p t) = objective_values t @ [ob p t]"
  shows "objective_values (fold W ps s)
           = objective_values s @ map (\<lambda>k. ob (ps ! k) (fold W (take k ps) s)) [0..<length ps]"
proof (induction ps rule: rev_induct)
  case Nil
  then show ?case by simp
next
  case (snoc p ps)
  have "map (\<lambda>k. ob ((ps @ [p]) ! k) (fold W (take k (ps @ [p])) s)) [0..<length ps]
        = map (\<lambda>k. ob (ps ! k) (fold W (take k ps) s)) [0..<length ps]"
    by (rule map_cong) (simp_all add: nth_append)
  with snoc show ?case
    by (simp add: assms)
qed


lemma fold_last:
  "ps \<noteq> [] \<Longrightarrow> fold W ps s = W (last ps) (fold W (butlast ps) s)"
proof -
  assume "ps \<noteq> []"
  then have "ps = butlast ps @ [last ps]" by simp
  then have "fold W ps s = fold W (butlast ps @ [last ps]) s" by simp
  then show ?thesis by simp
qed

text \<open>
  C9. When \<^verbatim>\<open>optimize_problem_loop\<close> reaches its loop, it returns \<^verbatim>\<open>True\<close> and the
  scenario it leaves is the one obtained by running the periods one after the other, each
  on the scenario the previous one left. The periods are the distinct values of the
  \<^verbatim>\<open>predictive\<close> column, each once, in increasing order of their first time step.
  One period turns a scenario into \<open>scenario_after_window\<close>, in every field: past
  degradation is applied to each storage DER before the solve, the solve of the window
  runs on that fleet, the degradation of the window is computed for each storage DER on
  what the solve stored, the objective values of the solve are appended to the running
  total, and every DER and every value stream holds its saved results. The calls are made
  in this order. After the loop the objective values are the earlier ones followed by
  one row per period, in order, each the objective of that period solved on the scenario
  the periods before it left, and the fleet and the value streams are those the last
  period leaves.
\<close>

theorem rolling_horizon_order:
  assumes "\<not> (is_sizing_optimization s
              \<and> (is_whole_sale_market X (value_streams s)
                 \<or> post_facto_reliability_only X (value_streams s)
                 \<or> is_dcp_error X (incl_binary s) (der_list s)))"
      and "\<not> (is_deferral_only X (value_streams s) \<or> post_facto_reliability_only X (value_streams s))"
  shows "let periods = unique (optimization_levels s);
             r = check_system_requirements X (der_list s) (value_streams s);
             alpha = (if is_sizing_optimization s then annuity_scalar X else 1);
             s1 = fst (snd (optimize_problem_loop X (s, e)))
         in fst (optimize_problem_loop X (s, e)) = True
          \<and> s1 = fold (optimize_window X r alpha) periods s
          \<and> sorted_wrt (<) (map (\<lambda>p. hd (sub_index_of (optimization_levels s) p)) periods)
          \<and> distinct periods \<and> set periods = set (optimization_levels s)
          \<and> calls s1 = calls s @ concat (map (window_calls (map technology_type (der_list s))
                                                (length (value_streams s)) (optimization_levels s))
                                           periods)
          \<and> (\<forall>p s0. der_list (optimize_window X r alpha p s0) = fleet_after_window X r alpha p s0)
          \<and> length (objective_values s1) = length (objective_values s) + length periods
          \<and> (\<forall>p s0. optimize_window X r alpha p s0 = scenario_after_window X r alpha p s0)
          \<and> s1 = fold (scenario_after_window X r alpha) periods s
          \<and> objective_values s1
              = objective_values s
                @ map (\<lambda>k. objective_of_window X r alpha (periods ! k)
                              (fold (scenario_after_window X r alpha) (take k periods) s))
                    [0..<length periods]
          \<and> (periods \<noteq> [] \<longrightarrow>
                value_streams s1
                  = services_after_window X r alpha (last periods)
                      (fold (scenario_after_window X r alpha) (butlast periods) s)
              \<and> der_list s1
                  = fleet_after_window X r alpha (last periods)
                      (fold (scenario_after_window X r alpha) (butlast periods) s))"
proof -
  define alpha where "alpha = (if is_sizing_optimization s then annuity_scalar X else 1)"
  define r where "r = check_system_requirements X (der_list s) (value_streams s)"
  define periods where "periods = unique (optimization_levels s)"
  define s1 where "s1 = fst (snd (optimize_problem_loop X (s, e)))"
  have run: "optimize_problem_loop X (s, e)
      = (True, (fold (optimize_window X r alpha) periods s,
                log_info ''Starting optimization loop'' e))"
    using assms by (simp add: optimize_problem_loop_def Let_def alpha_def r_def periods_def)
  have flag: "fst (optimize_problem_loop X (s, e)) = True"
    by (simp add: run)
  have c1: "s1 = fold (optimize_window X r alpha) periods s"
    by (simp add: s1_def run)
  have W: "optimize_window X r alpha = scenario_after_window X r alpha"
    by (intro ext) (rule optimize_window_closed_form)
  have c2: "s1 = fold (scenario_after_window X r alpha) periods s"
    by (simp add: c1 W)
  have c3: "sorted_wrt (<) (map (\<lambda>p. hd (sub_index_of (optimization_levels s) p)) periods)"
    and c4: "distinct periods" and c5: "set periods = set (optimization_levels s)"
    by (simp_all add: periods_def unique_increasing unique_distinct unique_set)
  have c6: "calls s1 = calls s @ concat (map (window_calls (map technology_type (der_list s))
                                                (length (value_streams s)) (optimization_levels s))
                                           periods)"
    and c7: "length (objective_values s1) = length (objective_values s) + length periods"
    using fold_optimize_window [of X r alpha periods s] by (simp_all add: c1)
  have c8: "\<forall>p s0. der_list (optimize_window X r alpha p s0) = fleet_after_window X r alpha p s0"
    by (simp add: optimize_window_fleet)
  have c9: "\<forall>p s0. optimize_window X r alpha p s0 = scenario_after_window X r alpha p s0"
    by (simp add: optimize_window_closed_form)
  have c10: "objective_values s1
              = objective_values s
                @ map (\<lambda>k. objective_of_window X r alpha (periods ! k)
                              (fold (scenario_after_window X r alpha) (take k periods) s))
                    [0..<length periods]"
    unfolding c2
    by (rule fold_objective_values) (simp add: scenario_after_window_def)
  have c11: "periods \<noteq> [] \<longrightarrow>
                value_streams s1
                  = services_after_window X r alpha (last periods)
                      (fold (scenario_after_window X r alpha) (butlast periods) s)
              \<and> der_list s1
                  = fleet_after_window X r alpha (last periods)
                      (fold (scenario_after_window X r alpha) (butlast periods) s)"
  proof
    assume "periods \<noteq> []"
    from fold_last [OF this, of "scenario_after_window X r alpha" s]
    show "value_streams s1
                  = services_after_window X r alpha (last periods)
                      (fold (scenario_after_window X r alpha) (butlast periods) s)
              \<and> der_list s1
                  = fleet_after_window X r alpha (last periods)
                      (fold (scenario_after_window X r alpha) (butlast periods) s)"
      unfolding c2 by (simp add: scenario_after_window_def)
  qed
  show ?thesis
    unfolding Let_def alpha_def [symmetric] r_def [symmetric] periods_def [symmetric]
      s1_def [symmetric]
    by (intro conjI) (fact flag c1 c2 c3 c4 c5 c6 c7 c8 c9 c10 c11)+
qed


lemma demo_periods: "unique [1, 1, 2 :: int] = [1, 2]"
  by (simp add: unique_def)

lemma demo_rolling_run:
  "value_streams (fold (scenario_after_window demo_rolling () 1) [1, 2] (demo_scenario False False))
     = [(''Reliability'', 32), (''DA'', 32)]"
  "objective_values (fold (scenario_after_window demo_rolling () 1) [1, 2] (demo_scenario False False))
     = [2, 2105]"
  "der_list (fold (scenario_after_window demo_rolling () 1) [1, 2] (demo_scenario False False))
     = [\<lparr>technology_type = ''Energy Storage System'', body = 5306\<rparr>,
        \<lparr>technology_type = ''Generator'', body = 5000\<rparr>]"
  "calls (fold (scenario_after_window demo_rolling () 1) [1, 2] (demo_scenario False False))
      = [Apply_past_degredation 0 1, Run_optimization 1, Calc_degradation 0 1 0 1,
         Concat_objective_values 1,
         Der_save_variable_results 0 [0, 1], Der_save_variable_results 1 [0, 1],
         Vs_save_variable_results 0 [0, 1], Vs_save_variable_results 1 [0, 1],
         Apply_past_degredation 0 2, Run_optimization 2, Calc_degradation 0 2 2 2,
         Concat_objective_values 2,
         Der_save_variable_results 0 [2], Der_save_variable_results 1 [2],
         Vs_save_variable_results 0 [2], Vs_save_variable_results 1 [2]]"
  by code_simp+

theorem rolling_horizon_order_witness:
  "\<not> (is_sizing_optimization (demo_scenario False False)
       \<and> (is_whole_sale_market demo_rolling (value_streams (demo_scenario False False))
          \<or> post_facto_reliability_only demo_rolling (value_streams (demo_scenario False False))
          \<or> is_dcp_error demo_rolling (incl_binary (demo_scenario False False))
               (der_list (demo_scenario False False))))
   \<and> \<not> (is_deferral_only demo_rolling (value_streams (demo_scenario False False))
          \<or> post_facto_reliability_only demo_rolling (value_streams (demo_scenario False False)))
   \<and> calls (fst (snd (optimize_problem_loop demo_rolling (demo_scenario False False, env0))))
      = [Apply_past_degredation 0 1, Run_optimization 1, Calc_degradation 0 1 0 1,
         Concat_objective_values 1,
         Der_save_variable_results 0 [0, 1], Der_save_variable_results 1 [0, 1],
         Vs_save_variable_results 0 [0, 1], Vs_save_variable_results 1 [0, 1],
         Apply_past_degredation 0 2, Run_optimization 2, Calc_degradation 0 2 2 2,
         Concat_objective_values 2,
         Der_save_variable_results 0 [2], Der_save_variable_results 1 [2],
         Vs_save_variable_results 0 [2], Vs_save_variable_results 1 [2]]
   \<and> der_list (fst (snd (optimize_problem_loop demo_rolling (demo_scenario False False, env0))))
      = [\<lparr>technology_type = ''Energy Storage System'', body = 5306\<rparr>,
         \<lparr>technology_type = ''Generator'', body = 5000\<rparr>]
   \<and> value_streams (fst (snd (optimize_problem_loop demo_rolling (demo_scenario False False, env0))))
      = [(''Reliability'', 32), (''DA'', 32)]
   \<and> objective_values (fst (snd (optimize_problem_loop demo_rolling (demo_scenario False False, env0))))
      = [2, 2105]"
proof -
  have h1: "\<not> (is_sizing_optimization (demo_scenario False False)
       \<and> (is_whole_sale_market demo_rolling (value_streams (demo_scenario False False))
          \<or> post_facto_reliability_only demo_rolling (value_streams (demo_scenario False False))
          \<or> is_dcp_error demo_rolling (incl_binary (demo_scenario False False))
               (der_list (demo_scenario False False))))"
    by (simp add: demo_scenario_def)
  have h2: "\<not> (is_deferral_only demo_rolling (value_streams (demo_scenario False False))
          \<or> post_facto_reliability_only demo_rolling (value_streams (demo_scenario False False)))"
    by (simp add: demo_rolling_def demo_def)
  have lv: "unique (optimization_levels (demo_scenario False False)) = [1, 2]"
    by (simp add: demo_scenario_def demo_periods)
  have al: "(if is_sizing_optimization (demo_scenario False False)
             then annuity_scalar demo_rolling else 1) = 1"
    by (simp add: demo_scenario_def)
  from rolling_horizon_order [OF h1 h2, of env0, unfolded Let_def]
  have "fst (snd (optimize_problem_loop demo_rolling (demo_scenario False False, env0)))
      = fold (scenario_after_window demo_rolling
                (check_system_requirements demo_rolling (der_list (demo_scenario False False))
                   (value_streams (demo_scenario False False)))
                (if is_sizing_optimization (demo_scenario False False)
                 then annuity_scalar demo_rolling else 1))
          (unique (optimization_levels (demo_scenario False False))) (demo_scenario False False)"
    by (elim conjE)
  then have "fst (snd (optimize_problem_loop demo_rolling (demo_scenario False False, env0)))
      = fold (scenario_after_window demo_rolling () 1) [1, 2] (demo_scenario False False)"
    by (simp add: lv al)
  with h1 h2 show ?thesis
    by (simp only: demo_rolling_run simp_thms)
qed

text \<open>
  C6. With the POI in sizing mode, \<^verbatim>\<open>optimize_problem_loop\<close> returns \<^verbatim>\<open>False\<close> when
  the services are wholesale markets only, when only the post facto reliability analysis
  is asked for, or when sizing power meets the binary formulation. The scenario is then
  exactly as before the call (no window was set up or solved, no call was made on a DER
  or a value stream); the only effect is one message to the error logger.
\<close>

theorem sizing_conflicts_fail_before_any_solve:
  assumes "is_sizing_optimization s"
      and "is_whole_sale_market X (value_streams s)
           \<or> post_facto_reliability_only X (value_streams s)
           \<or> is_dcp_error X (incl_binary s) (der_list s)"
  shows "fst (optimize_problem_loop X (s, e)) = False
         \<and> fst (snd (optimize_problem_loop X (s, e))) = s
         \<and> (\<exists>msg. snd (snd (optimize_problem_loop X (s, e))) = log_error msg e)"
  using assms by (auto simp: optimize_problem_loop_def Let_def)

theorem sizing_conflicts_fail_before_any_solve_witness:
  "is_sizing_optimization (demo_scenario True True)
   \<and> is_dcp_error demo (incl_binary (demo_scenario True True)) (der_list (demo_scenario True True))
   \<and> fst (optimize_problem_loop demo (demo_scenario True True, env0)) = False
   \<and> fst (snd (optimize_problem_loop demo (demo_scenario True True, env0))) = demo_scenario True True
   \<and> calls (fst (snd (optimize_problem_loop demo (demo_scenario True True, env0)))) = []"
proof -
  have h1: "is_sizing_optimization (demo_scenario True True)"
    by (simp add: demo_scenario_def)
  have h2: "is_dcp_error demo (incl_binary (demo_scenario True True)) (der_list (demo_scenario True True))"
    by (simp add: demo_scenario_def demo_def)
  have c0: "calls (demo_scenario True True) = []"
    by (simp add: demo_scenario_def)
  from sizing_conflicts_fail_before_any_solve [OF h1 disjI2 [OF disjI2 [OF h2]], of env0] h1 h2 c0
  show ?thesis by simp
qed

text \<open>
  C10. When \<^verbatim>\<open>'Reliability'\<close> is not a key of the value streams, or the POI is not
  sizing, \<^verbatim>\<open>Reliability_based_sizing_module\<close> returns with the scenario, its fleet
  included, exactly as it was.
\<close>

theorem reliability_module_guard:
  assumes "''Reliability'' \<notin> set (map fst (value_streams s)) \<or> \<not> is_sizing_optimization s"
  shows "Reliability_based_sizing_module X s = Some s"
proof (cases "map_of (value_streams s) ''Reliability''")
  case None
  then show ?thesis by (simp add: Reliability_based_sizing_module_def)
next
  case (Some rm)
  then have "''Reliability'' \<in> set (map fst (value_streams s))"
    by (metis map_of_eq_None_iff option.distinct(1) set_map)
  with assms have "\<not> is_sizing_optimization s" by simp
  with Some show ?thesis by (simp add: Reliability_based_sizing_module_def)
qed

theorem reliability_module_guard_witness:
  "\<not> is_sizing_optimization (demo_scenario False False)
   \<and> Reliability_based_sizing_module demo (demo_scenario False False) = Some (demo_scenario False False)
   \<and> ''Reliability'' \<notin> set (map fst (value_streams ((demo_scenario True False)\<lparr>value_streams := [(''DA'', 0)]\<rparr>)))
   \<and> Reliability_based_sizing_module demo ((demo_scenario True False)\<lparr>value_streams := [(''DA'', 0)]\<rparr>)
       = Some ((demo_scenario True False)\<lparr>value_streams := [(''DA'', 0)]\<rparr>)"
proof -
  have h1: "\<not> is_sizing_optimization (demo_scenario False False)"
    by (simp add: demo_scenario_def)
  have h2: "''Reliability'' \<notin> set (map fst (value_streams ((demo_scenario True False)\<lparr>value_streams := [(''DA'', 0)]\<rparr>)))"
    by simp
  from reliability_module_guard [OF disjI2 [OF h1], of demo]
       reliability_module_guard [OF disjI1 [OF h2], of demo] h1 h2
  show ?thesis by simp
qed

lemma demo_sweep:
  "verification_sweep demo 0 demo_limits [5, 5, 5] 0 = 0"
  by (subst verification_sweep.simps)
     (simp add: demo_def demo_limits_def numeral_2_eq_2)

text \<open>
  C2. The sizing loop should end only when the sweep finds no failing start index. On a
  horizon of three steps with an outage duration of 2, a fleet that survives one step
  from start index 0 fails there (1 is less than 2 and less than the 3 remaining steps):
  the sweep returns \<^verbatim>\<open>First_failure_ind = 0\<close>. The loop tests
  \<^verbatim>\<open>First_failure_ind > 0\<close>, so it ends with the candidate indices as they were and
  index 0 is never added.
\<close>

theorem sweep_failure_at_index_zero_ends_loop:
  "verification_sweep demo 0 demo_limits [5, 5, 5] 0 = 0
   \<and> sizing_loop demo 0 [False, False, False] ([1, 2], demo_fleet) = Some ([1, 2], demo_fleet)"
proof -
  have soc: "replicate (length (critical_load demo (0::nat)))
               (soc_init demo (0::nat) * ess_properties demo_limits ''energy rating'') = [5, 5, 5]"
    by (simp add: demo_def demo_limits_def numeral_3_eq_3)
  have lim: "get_der_limits demo (0::nat) ders False = demo_limits" for ders
    by (simp add: demo_def)
  have sz: "reliability_sizing_for_analy_indices demo (0::nat) m idx ders = ders" for m idx ders
    by (simp add: demo_def)
  have "sizing_loop demo 0 [False, False, False] ([1, 2], demo_fleet) = Some ([1, 2], demo_fleet)"
    by (subst sizing_loop.simps) (simp add: Let_def lim sz soc demo_sweep)
  with demo_sweep show ?thesis by simp
qed

section \<open>Properties of the ranking of the first outages\<close>

lemma around_a: "np_around 5 (1000001 / 1000000) = 1" "np_around 5 (1000003 / 1000000) = 1"
  by code_simp+

text \<open>
  C5. The first candidate indices are not the ranking by unmet load with ties in time
  order. The code ranks the unmet load rounded to 5 decimals, so for the loads
  \<open>[1.000001, 1.000003]\<close> and \<open>[1.000003, 1.000001]\<close> it hands the same array to
  \<^verbatim>\<open>argsort\<close> and gets the same indices, whereas the ranking by unmet load puts the
  second step first for the one and the first step first for the other. Whatever
  \<^verbatim>\<open>argsort\<close> does, the code differs from that ranking on one of the two.
\<close>

theorem ranking_not_by_exact_unmet_load:
  "\<not> (\<exists>argsort.
        initial_analysis_indices (two_steps argsort [1000001 / 1000000, 1000003 / 1000000]) 0 two_step_limits
          = ranked_by_unmet_load (two_steps argsort [1000001 / 1000000, 1000003 / 1000000]) 0 two_step_limits
      \<and> initial_analysis_indices (two_steps argsort [1000003 / 1000000, 1000001 / 1000000]) 0 two_step_limits
          = ranked_by_unmet_load (two_steps argsort [1000003 / 1000000, 1000001 / 1000000]) 0 two_step_limits)"
proof -
  have code: "initial_analysis_indices (two_steps argsort [1000001 / 1000000, 1000003 / 1000000]) 0 two_step_limits
      = initial_analysis_indices (two_steps argsort [1000003 / 1000000, 1000001 / 1000000]) 0 two_step_limits"
    for argsort
    by (simp add: initial_analysis_indices_def max_load_demand_unserved_def two_steps_def
          two_step_limits_def around_a)
  have a: "ranked_by_unmet_load (two_steps argsort [1000001 / 1000000, 1000003 / 1000000]) 0 two_step_limits = [1, 0]"
    for argsort
    by (simp add: ranked_by_unmet_load_def unmet_load_def two_steps_def two_step_limits_def
          upt_rec [of 0 2] upt_rec [of 1 2])
  have b: "ranked_by_unmet_load (two_steps argsort [1000003 / 1000000, 1000001 / 1000000]) 0 two_step_limits = [0, 1]"
    for argsort
    by (simp add: ranked_by_unmet_load_def unmet_load_def two_steps_def two_step_limits_def
          upt_rec [of 0 2] upt_rec [of 1 2])
  show ?thesis
    using code a b by (metis list.inject zero_neq_one)
qed


lemma rounded_unmet_load:
  "max_load_demand_unserved X rm limits = map (np_around 5) (unmet_load X rm limits)"
  by (simp add: max_load_demand_unserved_def unmet_load_def case_prod_beta)

text \<open>
  C5, as the code has it. The key of the ranking is the unmet load (critical load minus
  generation minus PV) rounded to 5 decimals. Whenever \<^verbatim>\<open>argsort\<close> returns what numpy
  documents for it, a permutation of the positions that puts the negated keys in
  ascending order, the first candidate indices are its first ten entries: distinct time
  steps of the horizon, all of them when the horizon has fewer than ten, listed with the
  rounded unmet load never increasing, and no time step left out has a larger rounded
  unmet load than one that is in. The order among equal rounded unmet loads is the one
  \<^verbatim>\<open>argsort\<close> returns.
\<close>

theorem initial_indices_top_ten_by_rounded_load:
  assumes dist: "distinct (np_argsort X (map (\<lambda>u. - 1 * u) (max_load_demand_unserved X rm limits)))"
      and all: "set (np_argsort X (map (\<lambda>u. - 1 * u) (max_load_demand_unserved X rm limits)))
                  = {0..<length (max_load_demand_unserved X rm limits)}"
      and srt: "sorted (map (\<lambda>i. map (\<lambda>u. - 1 * u) (max_load_demand_unserved X rm limits) ! i)
                          (np_argsort X (map (\<lambda>u. - 1 * u) (max_load_demand_unserved X rm limits))))"
  shows "let U = max_load_demand_unserved X rm limits; A = initial_analysis_indices X rm limits
         in U = map (np_around 5) (unmet_load X rm limits)
          \<and> A = take 10 (np_argsort X (map (\<lambda>u. - 1 * u) U))
          \<and> length A = min 10 (length U) \<and> distinct A \<and> set A \<subseteq> {0..<length U}
          \<and> sorted_wrt (\<lambda>i j. U ! j \<le> U ! i) A
          \<and> (\<forall>i \<in> set A. \<forall>j < length U. j \<notin> set A \<longrightarrow> U ! j \<le> U ! i)"
proof -
  define U where "U = max_load_demand_unserved X rm limits"
  define idx where "idx = np_argsort X (map (\<lambda>u. - 1 * u) U)"
  define A where "A = initial_analysis_indices X rm limits"
  have A: "A = take 10 idx"
    by (simp add: A_def idx_def U_def initial_analysis_indices_def)
  have dist': "distinct idx" and all': "set idx = {0..<length U}"
    using dist all by (simp_all add: idx_def U_def)
  have len: "length idx = length U"
    using distinct_card [OF dist'] all' by simp
  have in_range: "idx ! a < length U" if "a < length idx" for a
    using that all' nth_mem [of a idx] by auto
  have mono: "U ! (idx ! b) \<le> U ! (idx ! a)" if "a \<le> b" "b < length idx" for a b
  proof -
    have "map (\<lambda>i. map (\<lambda>u. - 1 * u) U ! i) idx ! a \<le> map (\<lambda>i. map (\<lambda>u. - 1 * u) U ! i) idx ! b"
      using srt that unfolding idx_def [symmetric] U_def [symmetric]
      by (intro sorted_nth_mono) simp_all
    then show ?thesis
      using that in_range [of a] in_range [of b] by simp
  qed
  have lenA: "length A = min 10 (length U)"
    by (simp add: A len min.commute)
  have distA: "distinct A"
    by (simp add: A dist')
  have subA: "set A \<subseteq> {0..<length U}"
    using set_take_subset [of 10 idx] all' by (simp add: A)
  have sortedA: "sorted_wrt (\<lambda>i j. U ! j \<le> U ! i) A"
    unfolding sorted_wrt_iff_nth_less
  proof (intro allI impI)
    fix a b assume "a < b" "b < length A"
    then show "U ! (A ! b) \<le> U ! (A ! a)"
      using mono [of a b] by (simp add: A)
  qed
  have top: "\<forall>i \<in> set A. \<forall>j < length U. j \<notin> set A \<longrightarrow> U ! j \<le> U ! i"
  proof (intro ballI allI impI)
    fix i j assume i: "i \<in> set A" and j: "j < length U" "j \<notin> set A"
    from i obtain a where a: "a < length A" "A ! a = i"
      by (auto simp: in_set_conv_nth)
    then have a10: "a < 10" "a < length idx" "idx ! a = i"
      by (simp_all add: A)
    from j(1) all' have "j \<in> set idx" by simp
    then obtain b where b: "b < length idx" "idx ! b = j"
      by (auto simp: in_set_conv_nth)
    have "\<not> b < 10"
    proof
      assume "b < 10"
      then have "take 10 idx ! b = j" "b < length (take 10 idx)" using b by simp_all
      then have "j \<in> set (take 10 idx)" by (metis nth_mem)
      with j(2) show False by (simp add: A)
    qed
    with a10 have "a \<le> b" by simp
    from mono [OF this b(1)] show "U ! j \<le> U ! i"
      by (simp add: a10 b)
  qed
  show ?thesis
    unfolding Let_def U_def [symmetric] A_def [symmetric] idx_def [symmetric]
    using A lenA distA subA sortedA top
    by (simp add: U_def rounded_unmet_load idx_def)
qed

lemma around_ints: "np_around 5 3 = 3" "np_around 5 7 = 7"
  by code_simp+

theorem initial_indices_top_ten_by_rounded_load_witness:
  "distinct (np_argsort (two_steps (np_argsort demo) [3, 7])
               (map (\<lambda>u. - 1 * u) (max_load_demand_unserved (two_steps (np_argsort demo) [3, 7]) 0 two_step_limits)))
   \<and> set (np_argsort (two_steps (np_argsort demo) [3, 7])
               (map (\<lambda>u. - 1 * u) (max_load_demand_unserved (two_steps (np_argsort demo) [3, 7]) 0 two_step_limits)))
       = {0..<length (max_load_demand_unserved (two_steps (np_argsort demo) [3, 7]) 0 two_step_limits)}
   \<and> sorted (map (\<lambda>i. map (\<lambda>u. - 1 * u) (max_load_demand_unserved (two_steps (np_argsort demo) [3, 7]) 0 two_step_limits) ! i)
                (np_argsort (two_steps (np_argsort demo) [3, 7])
                   (map (\<lambda>u. - 1 * u) (max_load_demand_unserved (two_steps (np_argsort demo) [3, 7]) 0 two_step_limits))))
   \<and> max_load_demand_unserved (two_steps (np_argsort demo) [3, 7]) 0 two_step_limits = [3, 7]
   \<and> initial_analysis_indices (two_steps (np_argsort demo) [3, 7]) 0 two_step_limits = [1, 0]"
proof -
  define X where "X = two_steps (np_argsort demo) [3, 7]"
  have U: "max_load_demand_unserved X 0 two_step_limits = [3, 7]"
    by (simp add: X_def max_load_demand_unserved_def two_steps_def two_step_limits_def around_ints)
  have idx: "np_argsort X [- 3, - 7] = [1, 0]"
    by (simp add: X_def two_steps_def demo_def upt_rec [of 0 2] upt_rec [of 1 2])
  have h1: "distinct (np_argsort X (map (\<lambda>u. - 1 * u) (max_load_demand_unserved X 0 two_step_limits)))"
    by (simp add: U idx)
  have h2: "set (np_argsort X (map (\<lambda>u. - 1 * u) (max_load_demand_unserved X 0 two_step_limits)))
              = {0..<length (max_load_demand_unserved X 0 two_step_limits)}"
    by (auto simp: U idx)
  have h3: "sorted (map (\<lambda>i. map (\<lambda>u. - 1 * u) (max_load_demand_unserved X 0 two_step_limits) ! i)
                (np_argsort X (map (\<lambda>u. - 1 * u) (max_load_demand_unserved X 0 two_step_limits))))"
    by (simp add: U idx)
  from initial_indices_top_ten_by_rounded_load [OF h1 h2 h3]
  have "initial_analysis_indices X 0 two_step_limits = [1, 0]"
    by (simp add: Let_def U idx)
  with h1 h2 h3 U show ?thesis
    unfolding X_def by simp
qed

end
